theory Spec2Isabelle
  imports Complex_Main "HOL-Library.AList"
begin

section \<open>The strategy of Kwokker_Algorithm3.py\<close>

text \<open>
  The embedding follows class \<open>Strategy\<close> of \<open>src/trading/Kwokker_Algorithm3.py\<close>.
  Python floats are modelled by the reals: arithmetic is exact, and rounding, overflow
  and NaN are outside the model. The two dictionaries of the order book are association
  lists with distinct keys (insertion order, as a Python dict keeps it). The three calls
  into the platform (\<open>place_market_order\<close>, \<open>place_limit_order\<close>, \<open>cancel_order\<close>) are
  recorded, in call order, in a list of commands returned beside the new state. The
  value that \<open>place_limit_order\<close> returns is an input \<open>reply\<close> of the model
  (\<open>Some n\<close> for a Python int \<open>n\<close>, \<open>None\<close> for anything else), and the reading of
  \<open>time.monotonic()\<close> is an input \<open>now\<close>.
\<close>

subsection \<open>Data\<close>

datatype side = BUY | SELL

datatype ticker = TEAM_A

datatype command =
    MarketOrder side ticker real
  | LimitOrder side ticker real real bool
  | CancelOrder ticker int

record strategy =
  bids :: "(real \<times> real) list"
  asks :: "(real \<times> real) list"
  capital :: real
  pos :: real
  t :: real
  home :: int
  away :: int
  lead :: real
  momentum :: real
  seen_event :: bool
  start :: real
  work_bid :: "int option"
  work_ask :: "int option"

record game_event =
  event_type :: string
  home_away :: string
  home_score :: int
  away_score :: int
  player_name :: "string option"
  substituted_player_name :: "string option"
  shot_type :: "string option"
  assist_player :: "string option"
  rebound_type :: "string option"
  coordinate_x :: "real option"
  coordinate_y :: "real option"
  time_seconds :: "real option"

subsection \<open>Tunables\<close>

definition MAX_POS :: real where "MAX_POS = 800"
definition RISK_PCT :: real where "RISK_PCT = 7 / 1000"
definition MAX_SPREAD_TO_CROSS :: real where "MAX_SPREAD_TO_CROSS = 2"
definition PASSIVE_IMPROVE :: real where "PASSIVE_IMPROVE = 1 / 10"
definition MIN_QTY_LVL :: real where "MIN_QTY_LVL = 1"
definition HOME_ADV :: real where "HOME_ADV = 1"
definition BASE_EDGE :: real where "BASE_EDGE = 9 / 10"
definition INIT_COOLDOWN :: real where "INIT_COOLDOWN = 3"
definition CLOSE_OUT_BUFFER :: real where "CLOSE_OUT_BUFFER = 2"
definition GAME_LEN1 :: real where "GAME_LEN1 = 2400"
definition GAME_LEN2 :: real where "GAME_LEN2 = 2880"

subsection \<open>State reset and helpers\<close>

definition reset_state :: "real \<Rightarrow> strategy" where
  "reset_state now =
     \<lparr> bids = [], asks = [], capital = 100000, pos = 0, t = GAME_LEN2, home = 0, away = 0,
       lead = 0, momentum = 0, seen_event = False, start = now,
       work_bid = None, work_ask = None \<rparr>"

definition clamp_price :: "real \<Rightarrow> real" where
  "clamp_price p = min 100 (max 0 p)"

definition sigmoid :: "real \<Rightarrow> real" where
  "sigmoid x = 1 / (1 + exp (- x))"

text \<open>\<open>self._bids[p] >= self.MIN_QTY_LVL\<close> for a key \<open>p\<close> of the dictionary.\<close>

definition level_ok :: "(real \<times> real) list \<Rightarrow> real \<Rightarrow> bool" where
  "level_ok book p = (case map_of book p of Some q \<Rightarrow> MIN_QTY_LVL \<le> q | None \<Rightarrow> False)"

definition best_bid :: "strategy \<Rightarrow> real option" where
  "best_bid s =
     (if bids s = [] then None
      else find (level_ok (bids s)) (rev (sort (map fst (bids s)))))"

definition best_ask :: "strategy \<Rightarrow> real option" where
  "best_ask s =
     (if asks s = [] then None
      else find (level_ok (asks s)) (sort (map fst (asks s))))"

definition mid :: "strategy \<Rightarrow> real option" where
  "mid s =
     (case (best_bid s, best_ask s) of
        (Some bb, Some aa) \<Rightarrow> Some (0.5 * (bb + aa))
      | _ \<Rightarrow> None)"

subsection \<open>Fair value, threshold and sizing\<close>

definition edge_threshold :: "strategy \<Rightarrow> real" where
  "edge_threshold s =
     (let late_fac = 1 - 0.55 * (1 - tanh (max (t s) 0 / 600))
      in max 0.2 (BASE_EDGE * late_fac))"

text \<open>Lines 107 to 112 of \<open>_win_prob\<close>: the argument of the logistic function.\<close>

definition logit :: "strategy \<Rightarrow> real" where
  "logit s =
     (let t0 = max (t s) 0;
          scale = 1 / sqrt (t0 / 60 + 1);
          xlead = lead s * scale;
          xhome = HOME_ADV * scale;
          xmom = momentum s * (1 + (1 - tanh (t0 / 600)))
      in 0.18 * xlead + 0.20 * xhome + 0.10 * xmom)"

definition win_prob :: "strategy \<Rightarrow> real" where
  "win_prob s = max 0.01 (min 0.99 (sigmoid (logit s)))"

definition fair :: "strategy \<Rightarrow> real" where
  "fair s = 100 * win_prob s"

definition size_for_edge :: "strategy \<Rightarrow> real \<Rightarrow> real \<Rightarrow> real" where
  "size_for_edge s edge ref_price =
     (if ref_price \<le> 0 then 0
      else
        let budget = capital s * RISK_PCT;
            base = max 1 (budget / max 1 ref_price);
            sz = base * (0.5 + min 1.5 (\<bar>edge\<bar> / 2));
            urg = 1 + (1 - tanh (max (t s) 0 / 800));
            sz = sz * urg;
            sz = min sz (MAX_POS * 0.25)
        in max 0 (of_int \<lfloor>sz\<rfloor>))"

text \<open>
  The two factors of \<open>_size_for_edge\<close> by name: the edge factor of line 123 and the
  urgency multiplier of line 125.
\<close>

definition edge_factor :: "real \<Rightarrow> real" where
  "edge_factor edge = 0.5 + min 1.5 (\<bar>edge\<bar> / 2)"

definition urgency :: "strategy \<Rightarrow> real" where
  "urgency s = 1 + (1 - tanh (max (t s) 0 / 800))"

text \<open>
  The sizing rule in the words of the specification, for comparison with the code: the
  floor of the smaller of the cap and (capital times 0.007 over the reference price)
  times an edge factor \<open>f\<close> times an urgency multiplier \<open>u\<close>.
\<close>

definition spec_size_for_edge :: "real \<Rightarrow> real \<Rightarrow> real \<Rightarrow> real \<Rightarrow> real" where
  "spec_size_for_edge cap p f u =
     (if p \<le> 0 then 0 else of_int \<lfloor>min (0.25 * MAX_POS) (cap * 0.007 / p * f * u)\<rfloor>)"

subsection \<open>Order management\<close>

definition cancel_working :: "strategy \<Rightarrow> strategy \<times> command list" where
  "cancel_working s =
     (let c1 = (case work_bid s of Some b \<Rightarrow> [CancelOrder TEAM_A b] | None \<Rightarrow> []);
          c2 = (case work_ask s of Some a \<Rightarrow> [CancelOrder TEAM_A a] | None \<Rightarrow> [])
      in (s\<lparr>work_bid := None, work_ask := None\<rparr>, c1 @ c2))"

definition flatten_all :: "strategy \<Rightarrow> strategy \<times> command list" where
  "flatten_all s =
     (let (s1, cs) = cancel_working s
      in if \<bar>pos s1\<bar> \<ge> 1 then
           (if pos s1 > 0 then (s1, cs @ [MarketOrder SELL TEAM_A (of_int \<lfloor>pos s1\<rfloor>)])
            else (s1, cs @ [MarketOrder BUY TEAM_A (of_int \<lfloor>- pos s1\<rfloor>)]))
         else (s1, cs))"

text \<open>\<open>isinstance(oid, int) and oid >= 0\<close> on the value \<open>place_limit_order\<close> returned.\<close>

definition valid_oid :: "int option \<Rightarrow> bool" where
  "valid_oid reply = (case reply of Some n \<Rightarrow> 0 \<le> n | None \<Rightarrow> False)"

text \<open>Lines 190 to 213 of \<open>_try_trade\<close>: a single passive on the dominant side.\<close>

definition rest_passive ::
  "int option \<Rightarrow> strategy \<Rightarrow> real \<Rightarrow> real \<Rightarrow> real \<Rightarrow> real \<Rightarrow> real
     \<Rightarrow> strategy \<times> command list" where
  "rest_passive reply s bb aa md fv thr =
     (let e_buy = fv - aa; e_sell = bb - fv in
      if e_buy > e_sell \<and> e_buy > thr \<and> pos s < MAX_POS then
        (let px = clamp_price (bb + PASSIVE_IMPROVE);
             q = min (size_for_edge s e_buy md) (MAX_POS - pos s)
         in if q \<ge> 1 then
              (let c1 = (case work_bid s of Some b \<Rightarrow> [CancelOrder TEAM_A b] | None \<Rightarrow> []);
                   c2 = (case work_ask s of Some a \<Rightarrow> [CancelOrder TEAM_A a] | None \<Rightarrow> []);
                   s1 = s\<lparr>work_ask := None\<rparr>;
                   s2 = (if valid_oid reply then s1\<lparr>work_bid := reply\<rparr> else s1)
               in (s2, c1 @ c2 @ [LimitOrder BUY TEAM_A q px False]))
            else (s, []))
      else if e_sell > thr \<and> pos s > - MAX_POS then
        (let px = clamp_price (aa - PASSIVE_IMPROVE);
             q = min (size_for_edge s e_sell md) (pos s + MAX_POS)
         in if q \<ge> 1 then
              (let c1 = (case work_ask s of Some a \<Rightarrow> [CancelOrder TEAM_A a] | None \<Rightarrow> []);
                   c2 = (case work_bid s of Some b \<Rightarrow> [CancelOrder TEAM_A b] | None \<Rightarrow> []);
                   s1 = s\<lparr>work_bid := None\<rparr>;
                   s2 = (if valid_oid reply then s1\<lparr>work_ask := reply\<rparr> else s1)
               in (s2, c1 @ c2 @ [LimitOrder SELL TEAM_A q px False]))
            else (s, []))
      else cancel_working s)"

text \<open>
  Lines 155 to 213 of \<open>_try_trade\<close>, entered once both best prices exist. In the source
  a crossing branch whose quantity is below 1 falls through to the next test; here the
  test on the quantity is part of the branch condition, which selects the same branch.
  The late-game block is entered under \<open>t < 60\<close> and returns in two cases; the two
  conditions carry \<open>t < 60\<close> each.
\<close>

definition trade_on_book ::
  "int option \<Rightarrow> strategy \<Rightarrow> bool \<Rightarrow> real \<Rightarrow> real \<Rightarrow> real \<Rightarrow> strategy \<times> command list" where
  "trade_on_book reply s high_impact bb aa md =
     (let spread = max 0 (aa - bb);
          fv = fair s;
          thr = edge_threshold s;
          e_buy = fv - aa;
          e_sell = bb - fv
      in
      if t s < 60 \<and> pos s > 0.5 \<and> fv < bb then
        (s, [MarketOrder SELL TEAM_A (of_int \<lfloor>max 1 (pos s * 0.25)\<rfloor>)])
      else if t s < 60 \<and> pos s < - 0.5 \<and> fv > aa then
        (s, [MarketOrder BUY TEAM_A (of_int \<lfloor>max 1 (- pos s * 0.25)\<rfloor>)])
      else
        (let allow_cross = (spread \<le> MAX_SPREAD_TO_CROSS \<or> high_impact) in
         if allow_cross \<and> e_buy > thr \<and> pos s < MAX_POS
            \<and> min (size_for_edge s e_buy md) (MAX_POS - pos s) \<ge> 1 then
           (let q = min (size_for_edge s e_buy md) (MAX_POS - pos s);
                (s1, cs) = cancel_working s
            in (s1, cs @ [LimitOrder BUY TEAM_A q aa True]))
         else if allow_cross \<and> e_sell > thr \<and> pos s > - MAX_POS
            \<and> min (size_for_edge s e_sell md) (pos s + MAX_POS) \<ge> 1 then
           (let q = min (size_for_edge s e_sell md) (pos s + MAX_POS);
                (s1, cs) = cancel_working s
            in (s1, cs @ [LimitOrder SELL TEAM_A q bb True]))
         else rest_passive reply s bb aa md fv thr))"

definition try_trade ::
  "real \<Rightarrow> int option \<Rightarrow> strategy \<Rightarrow> bool \<Rightarrow> strategy \<times> command list" where
  "try_trade now reply s high_impact =
     (if now - start s < INIT_COOLDOWN then (s, [])
      else
        (case (best_bid s, best_ask s, mid s) of
           (Some bb, Some aa, Some md) \<Rightarrow> trade_on_book reply s high_impact bb aa md
         | _ \<Rightarrow> (s, [])))"

subsection \<open>Engine callbacks\<close>

definition on_trade_update ::
  "strategy \<Rightarrow> ticker \<Rightarrow> side \<Rightarrow> real \<Rightarrow> real \<Rightarrow> strategy \<times> command list" where
  "on_trade_update s ticker sd quantity price = (s, [])"

definition on_orderbook_update ::
  "real \<Rightarrow> int option \<Rightarrow> strategy \<Rightarrow> ticker \<Rightarrow> side \<Rightarrow> real \<Rightarrow> real
     \<Rightarrow> strategy \<times> command list" where
  "on_orderbook_update now reply s ticker sd quantity price =
     (if ticker \<noteq> TEAM_A then (s, [])
      else
        let price = clamp_price price;
            s1 = (if sd = BUY then
                    (if quantity \<le> 0 then s\<lparr>bids := AList.delete price (bids s)\<rparr>
                     else s\<lparr>bids := AList.update price quantity (bids s)\<rparr>)
                  else
                    (if quantity \<le> 0 then s\<lparr>asks := AList.delete price (asks s)\<rparr>
                     else s\<lparr>asks := AList.update price quantity (asks s)\<rparr>))
        in try_trade now reply s1 False)"

definition on_account_update ::
  "strategy \<Rightarrow> ticker \<Rightarrow> side \<Rightarrow> real \<Rightarrow> real \<Rightarrow> real \<Rightarrow> strategy \<times> command list" where
  "on_account_update s ticker sd price quantity capital_remaining =
     (let s1 = s\<lparr>capital := capital_remaining\<rparr>;
          s2 = s1\<lparr>pos := pos s1 + (if sd = BUY then quantity else - quantity)\<rparr>;
          (s3, c1) = (case work_bid s2 of
                        Some b \<Rightarrow> if pos s2 > 0 then (s2\<lparr>work_bid := None\<rparr>, [CancelOrder TEAM_A b])
                                  else (s2, [])
                      | None \<Rightarrow> (s2, []));
          (s4, c2) = (case work_ask s3 of
                        Some a \<Rightarrow> if pos s3 < 0 then (s3\<lparr>work_ask := None\<rparr>, [CancelOrder TEAM_A a])
                                  else (s3, [])
                      | None \<Rightarrow> (s3, []))
      in (s4, c1 @ c2))"

text \<open>Lines 269 to 272 of \<open>on_game_event_update\<close>: time and format inference.\<close>

definition infer_time :: "strategy \<Rightarrow> real option \<Rightarrow> strategy" where
  "infer_time s ts =
     (case ts of
        None \<Rightarrow> s
      | Some x \<Rightarrow>
          let s1 = (if x \<le> GAME_LEN1 + 1 then s\<lparr>t := x\<rparr> else s)
          in (if x \<le> GAME_LEN2 + 1 then s1\<lparr>t := max (t s1) x\<rparr> else s1))"

text \<open>Lines 275 to 284: scores and momentum.\<close>

definition update_scores :: "strategy \<Rightarrow> int \<Rightarrow> int \<Rightarrow> strategy" where
  "update_scores s hs as =
     (let prev_lead = lead s;
          s1 = s\<lparr>home := hs, away := as\<rparr>;
          s2 = s1\<lparr>lead := of_int (home s1 - away s1)\<rparr>
      in if seen_event s2 then
           (let dlead = lead s2 - prev_lead; a = 0.2
            in s2\<lparr>momentum := (1 - a) * momentum s2 + a * dlead\<rparr>)
         else s2\<lparr>seen_event := True, momentum := 0\<rparr>)"

text \<open>Lines 296 to 302: the high-impact detector.\<close>

definition is_high_impact :: "strategy \<Rightarrow> string \<Rightarrow> string option \<Rightarrow> bool" where
  "is_high_impact s et st =
     (if et = ''SCORE'' then (st = Some ''THREE_POINT'' \<or> t s < 30)
      else if et \<in> {''TURNOVER'', ''STEAL'', ''FOUL''} then t s < 45
      else False)"

definition on_game_event_update ::
  "real \<Rightarrow> int option \<Rightarrow> strategy \<Rightarrow> game_event \<Rightarrow> strategy \<times> command list" where
  "on_game_event_update now reply s ev =
     (let s1 = infer_time s (time_seconds ev);
          s2 = update_scores s1 (home_score ev) (away_score ev)
      in if event_type ev = ''END_GAME'' then
           (let (s3, cs) = flatten_all s2 in (reset_state now, cs))
         else if t s2 \<le> CLOSE_OUT_BUFFER then flatten_all s2
         else try_trade now reply s2 (is_high_impact s2 (event_type ev) (shot_type ev)))"

text \<open>Lines 309 to 315 of \<open>on_orderbook_snapshot\<close>: one side of the book rebuilt.\<close>

definition load_levels :: "(real \<times> real) list \<Rightarrow> (real \<times> real) list" where
  "load_levels lv =
     fold (\<lambda>(p, q) book. if q \<ge> MIN_QTY_LVL then AList.update (clamp_price p) q book else book)
       lv []"

definition on_orderbook_snapshot ::
  "real \<Rightarrow> int option \<Rightarrow> strategy \<Rightarrow> ticker \<Rightarrow> (real \<times> real) list \<Rightarrow> (real \<times> real) list
     \<Rightarrow> strategy \<times> command list" where
  "on_orderbook_snapshot now reply s ticker bs as =
     (if ticker \<noteq> TEAM_A then (s, [])
      else
        let s1 = s\<lparr>bids := [], asks := []\<rparr>;
            s2 = s1\<lparr>bids := load_levels bs\<rparr>;
            s3 = s2\<lparr>asks := load_levels as\<rparr>
        in try_trade now reply s3 False)"

subsection \<open>Auxiliary definitions\<close>

text \<open>The state with both working-order handles forgotten, to say what a call leaves alone.\<close>

definition no_handles :: "strategy \<Rightarrow> strategy" where
  "no_handles s = s\<lparr>work_bid := None, work_ask := None\<rparr>"

text \<open>A game event of a given type and reported time, with no score and no descriptors.\<close>

definition sample_event :: "string \<Rightarrow> real option \<Rightarrow> game_event" where
  "sample_event et ts =
     \<lparr> event_type = et, home_away = ''home'', home_score = 0, away_score = 0,
       player_name = None, substituted_player_name = None, shot_type = None,
       assist_player = None, rebound_type = None, coordinate_x = None, coordinate_y = None,
       time_seconds = ts \<rparr>"

text \<open>
  A state late in a game: clock at 0, score 5 to 5 after a five-point swing against the
  home side (lead 0, momentum - 1), so that the fair value is exactly 50.
\<close>

definition late_state :: "(real \<times> real) list \<Rightarrow> (real \<times> real) list \<Rightarrow> strategy" where
  "late_state bs as =
     (reset_state 0)\<lparr>bids := bs, asks := as, t := 0, home := 5, away := 5, lead := 0,
       momentum := - 1, seen_event := True\<rparr>"

text \<open>
  The prices of a book lie in [0, 100]. Every handler clamps a price before it stores it,
  so this holds in every state the engine reaches from a reset.
\<close>

definition keys_clamped :: "(real \<times> real) list \<Rightarrow> bool" where
  "keys_clamped book = list_all (\<lambda>p. 0 \<le> p \<and> p \<le> 100) (map fst book)"

definition book_clamped :: "strategy \<Rightarrow> bool" where
  "book_clamped s = (keys_clamped (bids s) \<and> keys_clamped (asks s))"

text \<open>The late state with a wide book (30 bid, 40 ask) and a working order on each side.\<close>

definition resting_state :: strategy where
  "resting_state = (late_state [(30, 5)] [(40, 5)])\<lparr>work_bid := Some 3, work_ask := Some 7\<rparr>"

text \<open>A state inside the close-out buffer: 1.5 on the clock, short 12.5, a working sell.\<close>

definition closing_state :: strategy where
  "closing_state = (reset_state 0)\<lparr>pos := - 25 / 2, work_ask := Some 7, t := 3 / 2\<rparr>"

text \<open>The late state with a 39 bid and a 41 ask after a buy fill of 5 at 41.\<close>

definition filled_state :: strategy where
  "filled_state = (late_state [(39, 5)] [(41, 5)])\<lparr>capital := 99795, pos := 5\<rparr>"

section \<open>Properties\<close>

lemmas tunables =
  MAX_POS_def RISK_PCT_def MAX_SPREAD_TO_CROSS_def PASSIVE_IMPROVE_def MIN_QTY_LVL_def
  HOME_ADV_def BASE_EDGE_def INIT_COOLDOWN_def CLOSE_OUT_BUFFER_def GAME_LEN1_def
  GAME_LEN2_def

lemma late_fac_bounds:
  "1 - 0.55 * (1 - tanh (max x 0 / 600)) \<ge> (0.45::real)"
  "1 - 0.55 * (1 - tanh (max x 0 / 600)) \<le> (1::real)"
proof -
  have "0 \<le> tanh (max x 0 / 600)" by simp
  then show "1 - 0.55 * (1 - tanh (max x 0 / 600)) \<ge> (0.45::real)" by simp
  have "tanh (max x 0 / 600) < 1" by (rule tanh_real_lt_1)
  then show "1 - 0.55 * (1 - tanh (max x 0 / 600)) \<le> (1::real)" by simp
qed

subsection \<open>The edge threshold\<close>

lemma sched_floor: "0 \<le> (y::real) \<Longrightarrow> (0.2::real) \<le> 9 / 10 * (1 - 0.55 * (1 - y))"
  by simp

lemma edge_threshold_eq:
  "edge_threshold s = BASE_EDGE * (1 - 0.55 * (1 - tanh (max (t s) 0 / 600)))"
proof -
  have "0 \<le> tanh (max (t s) 0 / 600)" by simp
  then have "(0.2::real) \<le> BASE_EDGE * (1 - 0.55 * (1 - tanh (max (t s) 0 / 600)))"
    unfolding BASE_EDGE_def by (rule sched_floor)
  then show ?thesis
    unfolding edge_threshold_def Let_def by (rule max_absorb2)
qed

lemma edge_threshold_mono:
  assumes "t s1 \<le> t s2"
  shows "edge_threshold s1 \<le> edge_threshold s2"
proof -
  have "max (t s1) 0 / 600 \<le> max (t s2) 0 / 600" using assms by (simp add: max_def)
  then have "tanh (max (t s1) 0 / 600) \<le> tanh (max (t s2) 0 / 600)" by simp
  then show ?thesis by (simp add: edge_threshold_eq BASE_EDGE_def)
qed

text \<open>
  C9. The edge threshold does not increase as the remaining time decreases (a state with
  less remaining time has a threshold that is no larger). The floor of 0.2 never binds:
  the threshold is the base 0.9 times a factor 1 - 0.55 (1 - tanh (max t 0 / 600)), which
  lies between 0.45 and 1, so the tightening is at most 55 percent (reached at t \<le> 0),
  and the threshold is at least 0.2 for every remaining time.
\<close>

theorem edge_threshold_schedule:
  "(t s1 \<le> t s2 \<longrightarrow> edge_threshold s1 \<le> edge_threshold s2)
   \<and> edge_threshold s = BASE_EDGE * (1 - 0.55 * (1 - tanh (max (t s) 0 / 600)))
   \<and> BASE_EDGE * (1 - 0.55) \<le> edge_threshold s
   \<and> edge_threshold s \<le> BASE_EDGE
   \<and> (t s \<le> 0 \<longrightarrow> edge_threshold s = BASE_EDGE * (1 - 0.55))
   \<and> 0.2 \<le> edge_threshold s"
proof -
  have a: "0.45 \<le> 1 - 0.55 * (1 - tanh (max (t s) 0 / 600))"
    and b: "1 - 0.55 * (1 - tanh (max (t s) 0 / 600)) \<le> 1"
    using late_fac_bounds[of "t s"] by simp_all
  have c: "t s \<le> 0 \<longrightarrow> edge_threshold s = BASE_EDGE * (1 - 0.55)"
    by (simp add: edge_threshold_eq max_def)
  have d: "0.2 \<le> edge_threshold s" by (simp add: edge_threshold_def Let_def)
  show ?thesis using a b c d edge_threshold_mono[of s1 s2]
    by (simp add: edge_threshold_eq BASE_EDGE_def)
qed

theorem edge_threshold_schedule_witness:
  "t (reset_state 0\<lparr>t := 0\<rparr>) \<le> t (reset_state 0)
   \<and> edge_threshold (reset_state 0\<lparr>t := 0\<rparr>) \<le> edge_threshold (reset_state 0)
   \<and> edge_threshold (reset_state 0\<lparr>t := 0\<rparr>) = 0.405"
  using edge_threshold_schedule[of "reset_state 0\<lparr>t := 0\<rparr>" "reset_state 0" "reset_state 0\<lparr>t := 0\<rparr>"]
  by (simp add: reset_state_def GAME_LEN2_def BASE_EDGE_def)

subsection \<open>The fair value\<close>

lemma sigmoid_mono: "x \<le> y \<Longrightarrow> sigmoid x \<le> sigmoid y"
proof -
  assume "x \<le> y"
  then have "exp (- y) \<le> exp (- x)" by simp
  then have "1 + exp (- y) \<le> 1 + exp (- x)" by simp
  moreover have "0 < 1 + exp (- y)" by (simp add: add_pos_pos)
  ultimately show ?thesis
    unfolding sigmoid_def by (simp add: frac_le)
qed

lemma logit_mono_lead: "l1 \<le> l2 \<Longrightarrow> logit (s\<lparr>lead := l1\<rparr>) \<le> logit (s\<lparr>lead := l2\<rparr>)"
proof -
  assume a: "l1 \<le> l2"
  have "0 < max (t s) 0 / 60 + 1" by (simp add: max_def)
  then have "0 \<le> 1 / sqrt (max (t s) 0 / 60 + 1)" by simp
  then have "l1 * (1 / sqrt (max (t s) 0 / 60 + 1)) \<le> l2 * (1 / sqrt (max (t s) 0 / 60 + 1))"
    using a by (rule mult_right_mono[rotated])
  then show ?thesis unfolding logit_def Let_def by simp
qed

lemma logit_mono_momentum:
  "m1 \<le> m2 \<Longrightarrow> logit (s\<lparr>momentum := m1\<rparr>) \<le> logit (s\<lparr>momentum := m2\<rparr>)"
proof -
  assume a: "m1 \<le> m2"
  have "tanh (max (t s) 0 / 600) < 1" by (rule tanh_real_lt_1)
  then have "0 \<le> 1 + (1 - tanh (max (t s) 0 / 600))" by simp
  then have "m1 * (1 + (1 - tanh (max (t s) 0 / 600))) \<le> m2 * (1 + (1 - tanh (max (t s) 0 / 600)))"
    using a by (rule mult_right_mono[rotated])
  then show ?thesis unfolding logit_def Let_def by simp
qed

lemma clamp_mono: "(a::real) \<le> b \<Longrightarrow> max 0.01 (min 0.99 a) \<le> max 0.01 (min 0.99 b)"
  by (simp add: max_def min_def)

lemma fair_mono_logit: "logit s1 \<le> logit s2 \<Longrightarrow> fair s1 \<le> fair s2"
  unfolding fair_def win_prob_def using clamp_mono[OF sigmoid_mono] by simp

lemma fair_bounds: "1 \<le> fair s \<and> fair s \<le> 99"
  by (simp add: fair_def win_prob_def max_def min_def)

text \<open>
  C8. With every other field of the state fixed, the fair value does not decrease when
  the lead grows and does not decrease when the momentum grows, and for every state
  (so for every reachable one) it lies strictly between 0 and 100.
\<close>

theorem fair_monotone_bounded:
  "(l1 \<le> l2 \<longrightarrow> fair (s\<lparr>lead := l1\<rparr>) \<le> fair (s\<lparr>lead := l2\<rparr>))
   \<and> (m1 \<le> m2 \<longrightarrow> fair (s\<lparr>momentum := m1\<rparr>) \<le> fair (s\<lparr>momentum := m2\<rparr>))
   \<and> 0 < fair s \<and> fair s < 100"
proof -
  have a: "l1 \<le> l2 \<Longrightarrow> fair (s\<lparr>lead := l1\<rparr>) \<le> fair (s\<lparr>lead := l2\<rparr>)"
    by (rule fair_mono_logit[OF logit_mono_lead])
  have b: "m1 \<le> m2 \<Longrightarrow> fair (s\<lparr>momentum := m1\<rparr>) \<le> fair (s\<lparr>momentum := m2\<rparr>)"
    by (rule fair_mono_logit[OF logit_mono_momentum])
  have c: "0 < fair s \<and> fair s < 100" using fair_bounds[of s] by linarith
  show ?thesis using a b c by blast
qed

theorem fair_monotone_bounded_witness:
  "(0::real) \<le> 1
   \<and> fair (reset_state 0\<lparr>lead := 0\<rparr>) \<le> fair (reset_state 0\<lparr>lead := 1\<rparr>)
   \<and> fair (reset_state 0\<lparr>momentum := 0\<rparr>) \<le> fair (reset_state 0\<lparr>momentum := 1\<rparr>)
   \<and> 0 < fair (reset_state 0) \<and> fair (reset_state 0) < 100"
  using fair_monotone_bounded[of 0 1 "reset_state 0" 0 1] by simp

subsection \<open>Sizing\<close>

lemma edge_factor_bounds: "0.5 \<le> edge_factor e \<and> edge_factor e \<le> 2"
  unfolding edge_factor_def by (cases "\<bar>e\<bar> / 2 \<le> 1.5") (simp_all add: min_def)

lemma edge_factor_saturates: "edge_factor e = 2 \<longleftrightarrow> 3 \<le> \<bar>e\<bar>"
  unfolding edge_factor_def by (cases "\<bar>e\<bar> / 2 \<le> 1.5") (simp_all add: min_def)

lemma urgency_bounds: "1 < urgency s \<and> urgency s \<le> 2"
proof -
  have "tanh (max (t s) 0 / 800) < 1" by (rule tanh_real_lt_1)
  moreover have "0 \<le> tanh (max (t s) 0 / 800)" by simp
  ultimately show ?thesis unfolding urgency_def by linarith
qed

lemma urgency_antimono: "t s1 \<le> t s2 \<Longrightarrow> urgency s2 \<le> urgency s1"
proof -
  assume "t s1 \<le> t s2"
  then have "max (t s1) 0 / 800 \<le> max (t s2) 0 / 800" by (simp add: max_def)
  then have "tanh (max (t s1) 0 / 800) \<le> tanh (max (t s2) 0 / 800)" by simp
  then show ?thesis by (simp add: urgency_def)
qed

lemma urgency_at_zero: "t s \<le> 0 \<Longrightarrow> urgency s = 2"
  by (simp add: urgency_def max_def)

lemma size_for_edge_eq:
  "size_for_edge s e p =
     (if p \<le> 0 then 0
      else of_int \<lfloor>min (max 1 (capital s * RISK_PCT / max 1 p) * edge_factor e * urgency s)
                       (MAX_POS * 0.25)\<rfloor>)"
proof (cases "p \<le> 0")
  case True
  then show ?thesis by (simp only: size_for_edge_def if_True)
next
  case False
  define x where "x = max 1 (capital s * RISK_PCT / max 1 p) * edge_factor e * urgency s"
  have "1 \<le> max 1 (capital s * RISK_PCT / max 1 p)" by (rule max.cobounded1)
  then have b0: "0 \<le> max 1 (capital s * RISK_PCT / max 1 p)" by linarith
  have f0: "0 \<le> edge_factor e" using edge_factor_bounds[of e] by linarith
  have u0: "0 \<le> urgency s" using urgency_bounds[of s] by linarith
  have "0 \<le> x" unfolding x_def by (intro mult_nonneg_nonneg b0 f0 u0)
  moreover have "(0::real) \<le> MAX_POS * 0.25" unfolding MAX_POS_def by simp
  ultimately have "0 \<le> min x (MAX_POS * 0.25)" by (rule min.boundedI)
  then have "(0::real) \<le> of_int \<lfloor>min x (MAX_POS * 0.25)\<rfloor>" by simp
  then have m: "max 0 (of_int \<lfloor>min x (MAX_POS * 0.25)\<rfloor>) = (of_int \<lfloor>min x (MAX_POS * 0.25)\<rfloor> :: real)"
    by (rule max_absorb2)
  have "size_for_edge s e p = max 0 (of_int \<lfloor>min x (MAX_POS * 0.25)\<rfloor>)"
    using False unfolding size_for_edge_def Let_def x_def edge_factor_def urgency_def
    by (simp only: if_False)
  then show ?thesis using False m unfolding x_def by (simp only: if_False)
qed


text \<open>
  C2 (as amended). For a non-positive reference price the size is 0. Otherwise it is the
  whole-unit floor of min (base * f * u, cap), where base = max 1 (capital * 0.007 /
  max 1 p), the edge factor is f = 0.5 + min 1.5 (|e| / 2), which lies in [0.5, 2] and
  reaches 2 exactly when |e| \<ge> 3, the urgency multiplier is u = 2 - tanh (max t 0 / 800),
  which lies in [1, 2], equals 2 at t \<le> 0 and does not decrease as the remaining time
  decreases, and cap = 25 percent of the position limit = 200.
\<close>

theorem size_for_edge_policy:
  "size_for_edge s e p =
     (if p \<le> 0 then 0
      else of_int \<lfloor>min (max 1 (capital s * RISK_PCT / max 1 p) * edge_factor e * urgency s)
                       (MAX_POS * 0.25)\<rfloor>)
   \<and> edge_factor e = 0.5 + min 1.5 (\<bar>e\<bar> / 2)
   \<and> 0.5 \<le> edge_factor e \<and> edge_factor e \<le> 2
   \<and> (edge_factor e = 2 \<longleftrightarrow> 3 \<le> \<bar>e\<bar>)
   \<and> urgency s = 2 - tanh (max (t s) 0 / 800)
   \<and> 1 \<le> urgency s \<and> urgency s \<le> 2
   \<and> (t s \<le> 0 \<longrightarrow> urgency s = 2)
   \<and> (t s \<le> t s' \<longrightarrow> urgency s' \<le> urgency s)
   \<and> MAX_POS * 0.25 = 200"
proof -
  have a: "edge_factor e = 0.5 + min 1.5 (\<bar>e\<bar> / 2)" by (simp only: edge_factor_def)
  have b: "urgency s = 2 - tanh (max (t s) 0 / 800)" unfolding urgency_def by simp
  have c: "1 \<le> urgency s \<and> urgency s \<le> 2" using urgency_bounds[of s] by linarith
  have d: "MAX_POS * 0.25 = 200" by (simp add: MAX_POS_def)
  show ?thesis
    using size_for_edge_eq[of s e p] a b c d edge_factor_bounds[of e]
      edge_factor_saturates[of e] urgency_at_zero[of s] urgency_antimono[of s s']
    by blast
qed

lemma st_fields:
  "t (reset_state 0\<lparr>t := 0\<rparr>) = 0" "capital (reset_state 0\<lparr>t := 0\<rparr>) = 100000"
  "t (reset_state 0\<lparr>t := 0, capital := 100\<rparr>) = 0"
  "capital (reset_state 0\<lparr>t := 0, capital := 100\<rparr>) = 100"
  "t (reset_state 0) = 2880"
  by (simp_all add: reset_state_def GAME_LEN2_def)

lemma urg0: "urgency (reset_state 0\<lparr>t := 0\<rparr>) = 2"
  "urgency (reset_state 0\<lparr>t := 0, capital := 100\<rparr>) = 2"
  by (simp_all add: urgency_def st_fields)

lemma ef: "edge_factor 3 = 2" "edge_factor 2 = 3 / 2"
  by (simp_all add: edge_factor_def)

lemma sz_ex:
  "size_for_edge (reset_state 0\<lparr>t := 0\<rparr>) 3 50 = 56"
  "size_for_edge (reset_state 0\<lparr>t := 0\<rparr>) 2 50 = 42"
  "size_for_edge (reset_state 0\<lparr>t := 0, capital := 100\<rparr>) 2 50 = 3"
  by (simp_all add: size_for_edge_eq st_fields urg0 ef RISK_PCT_def MAX_POS_def)

theorem size_for_edge_policy_witness:
  "t (reset_state 0\<lparr>t := 0\<rparr>) \<le> 0
   \<and> t (reset_state 0\<lparr>t := 0\<rparr>) \<le> t (reset_state 0)
   \<and> urgency (reset_state 0\<lparr>t := 0\<rparr>) = 2
   \<and> urgency (reset_state 0) \<le> urgency (reset_state 0\<lparr>t := 0\<rparr>)
   \<and> size_for_edge (reset_state 0\<lparr>t := 0\<rparr>) 3 50 = 56"
  using size_for_edge_policy[of "reset_state 0\<lparr>t := 0\<rparr>" 3 50 "reset_state 0"]
  by (simp add: st_fields ef RISK_PCT_def MAX_POS_def)

text \<open>
  The claim as stated fails: with capital 100, t = 0, e = 2 and p = 50 the code returns 3
  (the base is raised to 1), where capital * 0.007 / p = 0.014 gives 0 even with the
  largest factors f = 2 and u = 2; and with capital 100000 the size still grows from
  |e| = 2 (42) to |e| = 3 (56), so the edge factor has not saturated at |e| = 2.
\<close>

theorem size_for_edge_counterexample:
  "size_for_edge (reset_state 0\<lparr>t := 0, capital := 100\<rparr>) 2 50 = 3
   \<and> spec_size_for_edge 100 50 2 2 = 0
   \<and> size_for_edge (reset_state 0\<lparr>t := 0\<rparr>) 2 50 = 42
   \<and> size_for_edge (reset_state 0\<lparr>t := 0\<rparr>) 3 50 = 56"
  by (simp add: sz_ex spec_size_for_edge_def MAX_POS_def)

subsection \<open>What the handlers leave alone; time inference\<close>

lemma cancel_working_frame: "no_handles (fst (cancel_working s)) = no_handles s"
  by (simp add: cancel_working_def no_handles_def Let_def)

lemma flatten_all_frame: "no_handles (fst (flatten_all s)) = no_handles s"
  by (simp add: flatten_all_def cancel_working_def no_handles_def Let_def)

lemma rest_passive_frame:
  "no_handles (fst (rest_passive reply s bb aa md fv thr)) = no_handles s"
  by (simp add: rest_passive_def cancel_working_def no_handles_def Let_def)

lemma trade_on_book_frame:
  "no_handles (fst (trade_on_book reply s hi bb aa md)) = no_handles s"
  unfolding trade_on_book_def Let_def
  by (simp add: rest_passive_frame cancel_working_frame split_beta)

lemma try_trade_frame: "no_handles (fst (try_trade now reply s hi)) = no_handles s"
  unfolding try_trade_def
  by (simp add: trade_on_book_frame split: option.splits)

lemma no_handles_fields:
  "t (no_handles s) = t s" "pos (no_handles s) = pos s" "capital (no_handles s) = capital s"
  "bids (no_handles s) = bids s" "asks (no_handles s) = asks s"
  "lead (no_handles s) = lead s" "momentum (no_handles s) = momentum s"
  "home (no_handles s) = home s" "away (no_handles s) = away s"
  "seen_event (no_handles s) = seen_event s" "start (no_handles s) = start s"
  by (simp_all add: no_handles_def)

lemma try_trade_t: "t (fst (try_trade now reply s hi)) = t s"
  using arg_cong[OF try_trade_frame[of now reply s hi], of t] by (simp only: no_handles_fields)

lemma flatten_all_t: "t (fst (flatten_all s)) = t s"
  using arg_cong[OF flatten_all_frame[of s], of t] by (simp only: no_handles_fields)

lemma update_scores_t: "t (update_scores s hs as) = t s"
  by (simp add: update_scores_def Let_def)

lemma game_event_t:
  "event_type ev \<noteq> ''END_GAME'' \<Longrightarrow>
   t (fst (on_game_event_update now reply s ev)) = t (infer_time s (time_seconds ev))"
  unfolding on_game_event_update_def Let_def
  by (simp add: try_trade_t flatten_all_t update_scores_t)

lemma infer_time_cases:
  "t (infer_time s None) = t s"
  "x \<le> GAME_LEN1 + 1 \<Longrightarrow> t (infer_time s (Some x)) = x"
  "GAME_LEN1 + 1 < x \<Longrightarrow> x \<le> GAME_LEN2 + 1 \<Longrightarrow> t (infer_time s (Some x)) = max (t s) x"
  "GAME_LEN2 + 1 < x \<Longrightarrow> t (infer_time s (Some x)) = t s"
  by (simp_all add: infer_time_def Let_def GAME_LEN1_def GAME_LEN2_def)

text \<open>
  C3 (as amended). For a game event other than END_GAME that reports a time x: if x is at
  most 2401 the stored remaining time becomes x, whatever it was before; if x is above
  2401 and at most 2881 it becomes the maximum of the previously stored time and x; if x
  is above 2881, or no time is reported, it is unchanged. So where both formats are
  plausible (x at most 2401) the reported time overwrites the stored one.
\<close>

theorem time_inference:
  "event_type ev \<noteq> ''END_GAME'' \<longrightarrow>
     (time_seconds ev = None \<longrightarrow> t (fst (on_game_event_update now reply s ev)) = t s)
   \<and> (\<forall>x. time_seconds ev = Some x \<longrightarrow>
         (x \<le> GAME_LEN1 + 1 \<longrightarrow> t (fst (on_game_event_update now reply s ev)) = x)
       \<and> (GAME_LEN1 + 1 < x \<and> x \<le> GAME_LEN2 + 1 \<longrightarrow>
            t (fst (on_game_event_update now reply s ev)) = max (t s) x)
       \<and> (GAME_LEN2 + 1 < x \<longrightarrow> t (fst (on_game_event_update now reply s ev)) = t s))"
  by (auto simp add: game_event_t infer_time_cases)


lemma sample_event_fields:
  "event_type (sample_event et ts) = et" "time_seconds (sample_event et ts) = ts"
  "home_score (sample_event et ts) = 0" "away_score (sample_event et ts) = 0"
  "shot_type (sample_event et ts) = None"
  by (simp_all add: sample_event_def)

theorem time_inference_witness:
  "event_type (sample_event ''SCORE'' (Some 2500)) \<noteq> ''END_GAME''
   \<and> time_seconds (sample_event ''SCORE'' (Some 2500)) = Some 2500
   \<and> GAME_LEN1 + 1 < 2500 \<and> 2500 \<le> GAME_LEN2 + 1
   \<and> t (fst (on_game_event_update 0 None (reset_state 0\<lparr>t := 2000\<rparr>)
              (sample_event ''SCORE'' (Some 2500)))) = 2500
   \<and> time_seconds (sample_event ''SCORE'' (Some 100)) = Some 100
   \<and> 100 \<le> GAME_LEN1 + 1
   \<and> t (fst (on_game_event_update 0 None (reset_state 0\<lparr>t := 2000\<rparr>)
              (sample_event ''SCORE'' (Some 100)))) = 100"
  using time_inference[of "sample_event ''SCORE'' (Some 2500)" 0 None "reset_state 0\<lparr>t := 2000\<rparr>"]
    time_inference[of "sample_event ''SCORE'' (Some 100)" 0 None "reset_state 0\<lparr>t := 2000\<rparr>"]
  by (simp add: sample_event_fields GAME_LEN1_def GAME_LEN2_def)

text \<open>
  The claim as stated fails: with 2880 stored, a reported time of 100 is at most 2881,
  yet the stored time becomes 100 and not the maximum of the stored and the reported
  time, 2880.
\<close>

theorem time_inference_counterexample:
  "t (fst (on_game_event_update 0 None (reset_state 0) (sample_event ''SCORE'' (Some 100)))) = 100
   \<and> 100 \<le> GAME_LEN2 + 1
   \<and> max (t (reset_state 0)) 100 = 2880"
  by (simp add: game_event_t sample_event_fields infer_time_cases GAME_LEN1_def GAME_LEN2_def
      reset_state_def)

subsection \<open>Account updates\<close>

text \<open>
  C4 (as amended). An account update stores the reported capital and adds the signed
  quantity to the position. If the new position is strictly positive, the working buy
  handle is cleared, with a cancel command for it when it existed, and the working sell
  handle is kept; if the new position is strictly negative, the working sell handle is
  cleared, with a cancel command for it when it existed, and the working buy handle is
  kept; at position zero both handles are kept and no command is issued.
\<close>

theorem account_update_handles:
  "capital (fst (on_account_update s tk sd price q cap)) = cap
   \<and> pos (fst (on_account_update s tk sd price q cap)) = pos s + (if sd = BUY then q else - q)
   \<and> (0 < pos s + (if sd = BUY then q else - q) \<longrightarrow>
        work_bid (fst (on_account_update s tk sd price q cap)) = None
      \<and> work_ask (fst (on_account_update s tk sd price q cap)) = work_ask s
      \<and> snd (on_account_update s tk sd price q cap) =
          (case work_bid s of Some b \<Rightarrow> [CancelOrder TEAM_A b] | None \<Rightarrow> []))
   \<and> (pos s + (if sd = BUY then q else - q) < 0 \<longrightarrow>
        work_ask (fst (on_account_update s tk sd price q cap)) = None
      \<and> work_bid (fst (on_account_update s tk sd price q cap)) = work_bid s
      \<and> snd (on_account_update s tk sd price q cap) =
          (case work_ask s of Some a \<Rightarrow> [CancelOrder TEAM_A a] | None \<Rightarrow> []))
   \<and> (pos s + (if sd = BUY then q else - q) = 0 \<longrightarrow>
        work_bid (fst (on_account_update s tk sd price q cap)) = work_bid s
      \<and> work_ask (fst (on_account_update s tk sd price q cap)) = work_ask s
      \<and> snd (on_account_update s tk sd price q cap) = [])"
  by (cases "work_bid s"; cases "work_ask s")
     (simp_all add: on_account_update_def Let_def)

theorem account_update_handles_witness:
  "0 < pos (reset_state 0\<lparr>work_bid := Some 3, work_ask := Some 7\<rparr>) + 5
   \<and> on_account_update (reset_state 0\<lparr>work_bid := Some 3, work_ask := Some 7\<rparr>)
        TEAM_A BUY 50 5 99750
      = (reset_state 0\<lparr>work_bid := None, work_ask := Some 7, capital := 99750, pos := 5\<rparr>,
         [CancelOrder TEAM_A 3])"
  using account_update_handles[of "reset_state 0\<lparr>work_bid := Some 3, work_ask := Some 7\<rparr>"
      TEAM_A BUY 50 5 99750]
  by (simp add: on_account_update_def reset_state_def Let_def)

text \<open>
  The claim as stated fails: a buy fill of 5 from a flat position with working orders 3
  (buy) and 7 (sell) leaves the position at 5, keeps the sell handle 7 and issues an
  explicit cancel command, for the buy order 3.
\<close>

theorem account_update_counterexample:
  "0 < pos (fst (on_account_update (reset_state 0\<lparr>work_bid := Some 3, work_ask := Some 7\<rparr>)
        TEAM_A BUY 50 5 99750))
   \<and> work_ask (fst (on_account_update (reset_state 0\<lparr>work_bid := Some 3, work_ask := Some 7\<rparr>)
        TEAM_A BUY 50 5 99750)) = Some 7
   \<and> snd (on_account_update (reset_state 0\<lparr>work_bid := Some 3, work_ask := Some 7\<rparr>)
        TEAM_A BUY 50 5 99750) = [CancelOrder TEAM_A 3]"
  by (simp add: on_account_update_def reset_state_def Let_def)

subsection \<open>Flatten and reset\<close>

lemma cancel_working_cmds:
  "snd (cancel_working s) =
     (case work_bid s of Some b \<Rightarrow> [CancelOrder TEAM_A b] | None \<Rightarrow> []) @
     (case work_ask s of Some a \<Rightarrow> [CancelOrder TEAM_A a] | None \<Rightarrow> [])"
  by (simp add: cancel_working_def Let_def)

lemma cancel_working_state: "fst (cancel_working s) = s\<lparr>work_bid := None, work_ask := None\<rparr>"
  by (simp add: cancel_working_def Let_def)

lemma flatten_all_cmds:
  "snd (flatten_all s) =
     snd (cancel_working s) @
     (if \<bar>pos s\<bar> \<ge> 1 then
        (if pos s > 0 then [MarketOrder SELL TEAM_A (of_int \<lfloor>pos s\<rfloor>)]
         else [MarketOrder BUY TEAM_A (of_int \<lfloor>- pos s\<rfloor>)])
      else [])"
  by (simp add: flatten_all_def cancel_working_def Let_def)

lemma flatten_all_state: "fst (flatten_all s) = s\<lparr>work_bid := None, work_ask := None\<rparr>"
  by (simp add: flatten_all_def cancel_working_def Let_def)

lemma end_game_result:
  "event_type ev = ''END_GAME'' \<Longrightarrow>
   on_game_event_update now reply s ev =
     (reset_state now,
      snd (flatten_all (update_scores (infer_time s (time_seconds ev)) (home_score ev) (away_score ev))))"
  by (simp add: on_game_event_update_def Let_def split_beta)

lemma infer_time_frame:
  "pos (infer_time s ts) = pos s" "work_bid (infer_time s ts) = work_bid s"
  "work_ask (infer_time s ts) = work_ask s"
  by (simp_all add: infer_time_def Let_def split: option.splits)

lemma update_scores_frame:
  "pos (update_scores s hs as) = pos s" "work_bid (update_scores s hs as) = work_bid s"
  "work_ask (update_scores s hs as) = work_ask s"
  by (simp_all add: update_scores_def Let_def)

lemma reset_fields:
  "pos (reset_state now) = 0" "work_bid (reset_state now) = None"
  "work_ask (reset_state now) = None" "capital (reset_state now) = 100000"
  "bids (reset_state now) = []" "asks (reset_state now) = []"
  "t (reset_state now) = GAME_LEN2" "momentum (reset_state now) = 0"
  by (simp_all add: reset_state_def)

text \<open>
  C10. Flatten-all issues only the cancels of the working orders, and no market order,
  when the magnitude of the position is below 1. An END_GAME event leaves the state of a
  fresh reset; a second END_GAME event right after it issues no command at all and leaves
  the same reset state (but for the wall-clock start of the cooldown): capital 100000,
  position 0, empty book, remaining time 2880, momentum 0.
\<close>

theorem end_game_idempotent:
  "(\<bar>pos sa\<bar> < 1 \<longrightarrow> snd (flatten_all sa) = snd (cancel_working sa))
   \<and> (event_type eva = ''END_GAME'' \<and> event_type evb = ''END_GAME'' \<longrightarrow>
        fst (on_game_event_update nowa ra s eva) = reset_state nowa
      \<and> on_game_event_update nowb rb (fst (on_game_event_update nowa ra s eva)) evb
          = (reset_state nowb, [])
      \<and> reset_state nowb = (reset_state nowa)\<lparr>start := nowb\<rparr>
      \<and> capital (reset_state nowb) = 100000 \<and> pos (reset_state nowb) = 0
      \<and> bids (reset_state nowb) = [] \<and> asks (reset_state nowb) = []
      \<and> t (reset_state nowb) = GAME_LEN2 \<and> momentum (reset_state nowb) = 0)"
proof -
  have a: "\<bar>pos sa\<bar> < 1 \<longrightarrow> snd (flatten_all sa) = snd (cancel_working sa)"
    by (simp add: flatten_all_cmds)
  have b: "event_type evb = ''END_GAME'' \<Longrightarrow>
           on_game_event_update nowb rb (reset_state nowa) evb = (reset_state nowb, [])"
    by (simp add: end_game_result flatten_all_cmds cancel_working_cmds
        update_scores_frame infer_time_frame reset_fields)
  have c: "reset_state nowb = (reset_state nowa)\<lparr>start := nowb\<rparr>"
    by (simp add: reset_state_def)
  show ?thesis using a b c by (simp add: end_game_result reset_fields)
qed

theorem end_game_idempotent_witness:
  "\<bar>pos (reset_state 0)\<bar> < 1
   \<and> snd (flatten_all (reset_state 0)) = []
   \<and> event_type (sample_event ''END_GAME'' (Some 0)) = ''END_GAME''
   \<and> on_game_event_update 9 None
        (fst (on_game_event_update 8 None (reset_state 0\<lparr>pos := 12, work_bid := Some 4\<rparr>)
               (sample_event ''END_GAME'' (Some 0))))
        (sample_event ''END_GAME'' (Some 0))
      = (reset_state 9, [])
   \<and> snd (on_game_event_update 8 None (reset_state 0\<lparr>pos := 12, work_bid := Some 4\<rparr>)
               (sample_event ''END_GAME'' (Some 0)))
      = [CancelOrder TEAM_A 4, MarketOrder SELL TEAM_A 12]"
  using end_game_idempotent[where sa = "reset_state 0"
      and eva = "sample_event ''END_GAME'' (Some 0)" and evb = "sample_event ''END_GAME'' (Some 0)"
      and nowa = 8 and ra = None and s = "reset_state 0\<lparr>pos := 12, work_bid := Some 4\<rparr>"
      and nowb = 9 and rb = None]
  by (simp add: sample_event_fields reset_fields cancel_working_cmds end_game_result
      flatten_all_cmds update_scores_frame infer_time_frame)

subsection \<open>The decision engine: sizes of the orders\<close>

lemma cancel_cmds_no_limit:
  "LimitOrder sd tk q px ioc \<notin> set (case h of Some b \<Rightarrow> [CancelOrder TEAM_A b] | None \<Rightarrow> [])"
  by (cases h) simp_all

lemma cancel_working_no_limit: "LimitOrder sd tk q px ioc \<notin> set (snd (cancel_working s))"
  by (simp add: cancel_working_cmds cancel_cmds_no_limit)

lemma rest_passive_limit:
  assumes "LimitOrder sd tk q px ioc \<in> set (snd (rest_passive reply s bb aa md fv thr))"
  shows "1 \<le> q \<and> \<not> ioc \<and> tk = TEAM_A
     \<and> (sd = BUY \<longrightarrow> fv - aa > bb - fv \<and> fv - aa > thr \<and> pos s < MAX_POS
           \<and> q = min (size_for_edge s (fv - aa) md) (MAX_POS - pos s)
           \<and> px = clamp_price (bb + PASSIVE_IMPROVE))
     \<and> (sd = SELL \<longrightarrow> \<not> (fv - aa > bb - fv \<and> fv - aa > thr \<and> pos s < MAX_POS)
           \<and> bb - fv > thr \<and> - MAX_POS < pos s
           \<and> q = min (size_for_edge s (bb - fv) md) (pos s + MAX_POS)
           \<and> px = clamp_price (aa - PASSIVE_IMPROVE))"
  using assms unfolding rest_passive_def Let_def
  by (auto simp add: cancel_working_no_limit cancel_cmds_no_limit split: if_splits)

lemma trade_on_book_limit:
  assumes "LimitOrder sd tk q px ioc \<in> set (snd (trade_on_book reply s hi bb aa md))"
  shows "1 \<le> q
     \<and> (sd = BUY \<longrightarrow> pos s < MAX_POS \<and> q = min (size_for_edge s (fair s - aa) md) (MAX_POS - pos s))
     \<and> (sd = SELL \<longrightarrow> - MAX_POS < pos s \<and> q = min (size_for_edge s (bb - fair s) md) (pos s + MAX_POS))"
  using assms rest_passive_limit[of sd tk q px ioc reply s bb aa md "fair s" "edge_threshold s"]
  unfolding trade_on_book_def Let_def
  by (auto simp add: cancel_working_no_limit split_beta split: if_splits)

lemma try_trade_cases:
  "try_trade now reply s hi = (s, []) \<or>
   (\<exists>bb aa. best_bid s = Some bb \<and> best_ask s = Some aa \<and> INIT_COOLDOWN \<le> now - start s
      \<and> try_trade now reply s hi = trade_on_book reply s hi bb aa (0.5 * (bb + aa)))"
  unfolding try_trade_def mid_def
  by (cases "best_bid s"; cases "best_ask s") simp_all

lemma try_trade_limit:
  assumes "LimitOrder sd tk q px ioc \<in> set (snd (try_trade now reply s hi))"
  shows "1 \<le> q \<and> (sd = BUY \<longrightarrow> pos s < MAX_POS \<and> q \<le> MAX_POS - pos s)
     \<and> (sd = SELL \<longrightarrow> - MAX_POS < pos s \<and> q \<le> pos s + MAX_POS)"
proof -
  from try_trade_cases[of now reply s hi] assms
  obtain bb aa where "LimitOrder sd tk q px ioc \<in> set (snd (trade_on_book reply s hi bb aa (0.5 * (bb + aa))))"
    by auto
  from trade_on_book_limit[OF this] show ?thesis by auto
qed

text \<open>
  C5. Every limit order that one evaluation of the decision engine places, crossing or
  passive, has a quantity of at least 1 that is at most the headroom left to the position
  cap of 800 on its side: a buy of q has pos + q \<le> 800, a sell of q has pos - q \<ge> - 800,
  so from a position within the cap the full execution of that one order leaves the
  position within the cap.
\<close>

theorem order_within_headroom:
  "\<forall>c \<in> set (snd (try_trade now reply s hi)).
     \<forall>sd tk q px ioc. c = LimitOrder sd tk q px ioc \<longrightarrow>
       1 \<le> q
       \<and> (sd = BUY \<longrightarrow> q \<le> MAX_POS - pos s \<and> pos s + q \<le> MAX_POS
             \<and> (\<bar>pos s\<bar> \<le> MAX_POS \<longrightarrow> \<bar>pos s + q\<bar> \<le> MAX_POS))
       \<and> (sd = SELL \<longrightarrow> q \<le> pos s + MAX_POS \<and> - MAX_POS \<le> pos s - q
             \<and> (\<bar>pos s\<bar> \<le> MAX_POS \<longrightarrow> \<bar>pos s - q\<bar> \<le> MAX_POS))"
proof (intro ballI allI impI)
  fix c sd tk q px ioc
  assume "c \<in> set (snd (try_trade now reply s hi))" and "c = LimitOrder sd tk q px ioc"
  then have "LimitOrder sd tk q px ioc \<in> set (snd (try_trade now reply s hi))" by simp
  from try_trade_limit[OF this]
  show "1 \<le> q
       \<and> (sd = BUY \<longrightarrow> q \<le> MAX_POS - pos s \<and> pos s + q \<le> MAX_POS
             \<and> (\<bar>pos s\<bar> \<le> MAX_POS \<longrightarrow> \<bar>pos s + q\<bar> \<le> MAX_POS))
       \<and> (sd = SELL \<longrightarrow> q \<le> pos s + MAX_POS \<and> - MAX_POS \<le> pos s - q
             \<and> (\<bar>pos s\<bar> \<le> MAX_POS \<longrightarrow> \<bar>pos s - q\<bar> \<le> MAX_POS))"
    by (auto simp add: abs_le_iff)
qed


lemma late_state_fields:
  "bids (late_state bs as) = bs" "asks (late_state bs as) = as" "t (late_state bs as) = 0"
  "lead (late_state bs as) = 0" "momentum (late_state bs as) = - 1"
  "pos (late_state bs as) = 0" "capital (late_state bs as) = 100000"
  "start (late_state bs as) = 0" "work_bid (late_state bs as) = None"
  "work_ask (late_state bs as) = None"
  by (simp_all add: late_state_def reset_state_def)

lemma late_state_fair: "fair (late_state bs as) = 50"
  by (simp add: fair_def win_prob_def sigmoid_def logit_def Let_def HOME_ADV_def late_state_fields)

lemma late_state_threshold: "edge_threshold (late_state bs as) = 81 / 200"
  by (simp add: edge_threshold_eq BASE_EDGE_def late_state_fields)

lemma late_state_urgency: "urgency (late_state bs as) = 2"
  by (simp add: urgency_def late_state_fields)

lemma late_state_best:
  "best_bid (late_state [(39, 5)] as) = Some 39"
  "best_bid (late_state [(30, 5)] as) = Some 30"
  "best_ask (late_state bs [(41, 5)]) = Some 41"
  "best_ask (late_state bs [(40, 5)]) = Some 40"
  by (simp_all add: best_bid_def best_ask_def level_ok_def MIN_QTY_LVL_def late_state_fields)

lemma late_state_size:
  "size_for_edge (late_state bs as) 9 40 = 70"
  "size_for_edge (late_state bs as) 10 35 = 80"
  by (simp_all add: size_for_edge_eq late_state_fields late_state_urgency edge_factor_def
      RISK_PCT_def MAX_POS_def)

lemma late_state_no_handles:
  "(late_state bs as)\<lparr>work_bid := None, work_ask := None\<rparr> = late_state bs as"
  by (simp add: late_state_def reset_state_def)

lemma late_state_cross:
  "try_trade 10 reply (late_state [(39, 5)] [(41, 5)]) False
     = (late_state [(39, 5)] [(41, 5)], [LimitOrder BUY TEAM_A 70 41 True])"
  by (simp add: try_trade_def mid_def late_state_best trade_on_book_def Let_def
      late_state_fair late_state_threshold late_state_size late_state_fields
      cancel_working_def late_state_no_handles
      INIT_COOLDOWN_def MAX_SPREAD_TO_CROSS_def MAX_POS_def)

theorem order_within_headroom_witness:
  "LimitOrder BUY TEAM_A 70 41 True
     \<in> set (snd (try_trade 10 None (late_state [(39, 5)] [(41, 5)]) False))
   \<and> pos (late_state [(39, 5)] [(41, 5)]) + 70 \<le> MAX_POS
   \<and> \<bar>pos (late_state [(39, 5)] [(41, 5)]) + 70\<bar> \<le> MAX_POS"
  using order_within_headroom[of 10 None "late_state [(39, 5)] [(41, 5)]" False]
  by (simp add: late_state_cross late_state_fields MAX_POS_def)

subsection \<open>The decision engine: resting a passive\<close>

lemma find_mem: "find P xs = Some x \<Longrightarrow> x \<in> set xs"
  by (auto simp add: find_Some_iff)

lemma best_bid_mem: "best_bid s = Some bb \<Longrightarrow> bb \<in> fst ` set (bids s)"
  unfolding best_bid_def by (auto dest: find_mem split: if_splits)

lemma best_ask_mem: "best_ask s = Some aa \<Longrightarrow> aa \<in> fst ` set (asks s)"
  unfolding best_ask_def by (auto dest: find_mem split: if_splits)

lemma keys_clamped_iff: "keys_clamped book \<longleftrightarrow> (\<forall>p \<in> fst ` set book. 0 \<le> p \<and> p \<le> 100)"
  unfolding keys_clamped_def list_all_iff by simp

lemma book_clamped_best:
  assumes "book_clamped s"
  shows "best_bid s = Some bb \<Longrightarrow> 0 \<le> bb \<and> bb \<le> 100"
    and "best_ask s = Some aa \<Longrightarrow> 0 \<le> aa \<and> aa \<le> 100"
  using assms best_bid_mem[of s bb] best_ask_mem[of s aa]
  unfolding book_clamped_def keys_clamped_iff by blast+

lemma trade_on_book_passive:
  assumes "LimitOrder sd tk q px False \<in> set (snd (trade_on_book reply s hi bb aa md))"
  shows "trade_on_book reply s hi bb aa md = rest_passive reply s bb aa md (fair s) (edge_threshold s)
     \<and> \<not> hi \<and> MAX_SPREAD_TO_CROSS < aa - bb"
proof -
  have mem: "LimitOrder sd tk q px False \<in> set (snd (rest_passive reply s bb aa md (fair s) (edge_threshold s)))"
    and eq: "trade_on_book reply s hi bb aa md = rest_passive reply s bb aa md (fair s) (edge_threshold s)"
    and nb: "\<not> ((max 0 (aa - bb) \<le> MAX_SPREAD_TO_CROSS \<or> hi) \<and> fair s - aa > edge_threshold s
            \<and> pos s < MAX_POS \<and> min (size_for_edge s (fair s - aa) md) (MAX_POS - pos s) \<ge> 1)"
    and ns: "\<not> ((max 0 (aa - bb) \<le> MAX_SPREAD_TO_CROSS \<or> hi) \<and> bb - fair s > edge_threshold s
            \<and> pos s > - MAX_POS \<and> min (size_for_edge s (bb - fair s) md) (pos s + MAX_POS) \<ge> 1)"
    using assms unfolding trade_on_book_def Let_def
    by (auto simp add: cancel_working_no_limit split_beta split: if_splits)
  from rest_passive_limit[OF mem] nb ns
  have "\<not> (max 0 (aa - bb) \<le> MAX_SPREAD_TO_CROSS \<or> hi)"
    by (cases sd) auto
  then have "\<not> hi \<and> MAX_SPREAD_TO_CROSS < aa - bb"
    by (auto simp add: max_def MAX_SPREAD_TO_CROSS_def split: if_splits)
  with eq show ?thesis by simp
qed

lemma rest_passive_buy:
  assumes "fv - aa > bb - fv" "fv - aa > thr" "pos s < MAX_POS"
    and "1 \<le> min (size_for_edge s (fv - aa) md) (MAX_POS - pos s)"
  shows "snd (rest_passive reply s bb aa md fv thr) =
           (case work_bid s of Some b \<Rightarrow> [CancelOrder TEAM_A b] | None \<Rightarrow> []) @
           (case work_ask s of Some a \<Rightarrow> [CancelOrder TEAM_A a] | None \<Rightarrow> []) @
           [LimitOrder BUY TEAM_A (min (size_for_edge s (fv - aa) md) (MAX_POS - pos s))
              (clamp_price (bb + PASSIVE_IMPROVE)) False]"
    and "work_ask (fst (rest_passive reply s bb aa md fv thr)) = None"
    and "work_bid (fst (rest_passive reply s bb aa md fv thr)) =
           (if valid_oid reply then reply else work_bid s)"
  using assms unfolding rest_passive_def Let_def by simp_all

lemma rest_passive_sell:
  assumes "\<not> (fv - aa > bb - fv \<and> fv - aa > thr \<and> pos s < MAX_POS)"
    and "bb - fv > thr" "- MAX_POS < pos s"
    and "1 \<le> min (size_for_edge s (bb - fv) md) (pos s + MAX_POS)"
  shows "snd (rest_passive reply s bb aa md fv thr) =
           (case work_ask s of Some a \<Rightarrow> [CancelOrder TEAM_A a] | None \<Rightarrow> []) @
           (case work_bid s of Some b \<Rightarrow> [CancelOrder TEAM_A b] | None \<Rightarrow> []) @
           [LimitOrder SELL TEAM_A (min (size_for_edge s (bb - fv) md) (pos s + MAX_POS))
              (clamp_price (aa - PASSIVE_IMPROVE)) False]"
    and "work_bid (fst (rest_passive reply s bb aa md fv thr)) = None"
    and "work_ask (fst (rest_passive reply s bb aa md fv thr)) =
           (if valid_oid reply then reply else work_ask s)"
proof -
  have c: "(fv - aa > bb - fv \<and> fv - aa > thr \<and> pos s < MAX_POS) = False"
    using assms(1) by blast
  show "snd (rest_passive reply s bb aa md fv thr) =
           (case work_ask s of Some a \<Rightarrow> [CancelOrder TEAM_A a] | None \<Rightarrow> []) @
           (case work_bid s of Some b \<Rightarrow> [CancelOrder TEAM_A b] | None \<Rightarrow> []) @
           [LimitOrder SELL TEAM_A (min (size_for_edge s (bb - fv) md) (pos s + MAX_POS))
              (clamp_price (aa - PASSIVE_IMPROVE)) False]"
    and "work_bid (fst (rest_passive reply s bb aa md fv thr)) = None"
    and "work_ask (fst (rest_passive reply s bb aa md fv thr)) =
           (if valid_oid reply then reply else work_ask s)"
    unfolding rest_passive_def Let_def c using assms(2-) by simp_all
qed



lemma edge_threshold_ge: "0.2 \<le> edge_threshold s"
  by (simp add: edge_threshold_def Let_def)

lemma clamp_price_id: "0 \<le> p \<Longrightarrow> p \<le> 100 \<Longrightarrow> clamp_price p = p"
  by (simp add: clamp_price_def)

text \<open>
  C7. In a state whose book prices lie in [0, 100], whenever an evaluation of the engine
  places a passive (non-IOC) limit order, no cross fired (the spread exceeds 2 and the
  evaluation is not high-impact), the order is on the side with the larger edge, that
  edge exceeds the threshold and the position has headroom on that side; the commands of
  the evaluation are the cancel of the same-side working order (if any), the cancel of
  the opposite-side working order (if any) and the order itself, priced at best bid + 0.1
  for a buy and best ask - 0.1 for a sell; the opposite handle is cleared, and the
  same-side handle becomes the returned identifier if that is a non-negative int and is
  left as it was otherwise.
\<close>

theorem passive_rest:
  assumes "book_clamped s"
    and "LimitOrder sd tk q px False \<in> set (snd (try_trade now reply s hi))"
  shows "\<exists>bb aa. best_bid s = Some bb \<and> best_ask s = Some aa
     \<and> \<not> hi \<and> MAX_SPREAD_TO_CROSS < aa - bb
     \<and> edge_threshold s < max (fair s - aa) (bb - fair s)
     \<and> 1 \<le> q
     \<and> (sd = BUY \<longrightarrow>
           bb - fair s < fair s - aa \<and> edge_threshold s < fair s - aa \<and> pos s < MAX_POS
         \<and> q = min (size_for_edge s (fair s - aa) (0.5 * (bb + aa))) (MAX_POS - pos s)
         \<and> px = bb + 0.1
         \<and> snd (try_trade now reply s hi) =
             (case work_bid s of Some b \<Rightarrow> [CancelOrder TEAM_A b] | None \<Rightarrow> []) @
             (case work_ask s of Some a \<Rightarrow> [CancelOrder TEAM_A a] | None \<Rightarrow> []) @
             [LimitOrder BUY TEAM_A q px False]
         \<and> work_ask (fst (try_trade now reply s hi)) = None
         \<and> work_bid (fst (try_trade now reply s hi)) =
             (if valid_oid reply then reply else work_bid s))
     \<and> (sd = SELL \<longrightarrow>
           fair s - aa < bb - fair s \<and> edge_threshold s < bb - fair s \<and> - MAX_POS < pos s
         \<and> q = min (size_for_edge s (bb - fair s) (0.5 * (bb + aa))) (pos s + MAX_POS)
         \<and> px = aa - 0.1
         \<and> snd (try_trade now reply s hi) =
             (case work_ask s of Some a \<Rightarrow> [CancelOrder TEAM_A a] | None \<Rightarrow> []) @
             (case work_bid s of Some b \<Rightarrow> [CancelOrder TEAM_A b] | None \<Rightarrow> []) @
             [LimitOrder SELL TEAM_A q px False]
         \<and> work_bid (fst (try_trade now reply s hi)) = None
         \<and> work_ask (fst (try_trade now reply s hi)) =
             (if valid_oid reply then reply else work_ask s))"
proof -
  from try_trade_cases[of now reply s hi] assms(2)
  obtain bb aa where bb: "best_bid s = Some bb" and aa: "best_ask s = Some aa"
    and tt: "try_trade now reply s hi = trade_on_book reply s hi bb aa (0.5 * (bb + aa))"
    by auto
  define md where "md = 0.5 * (bb + aa)"
  define fv where "fv = fair s"
  define thr where "thr = edge_threshold s"
  have mem: "LimitOrder sd tk q px False \<in> set (snd (trade_on_book reply s hi bb aa md))"
    using assms(2) unfolding tt md_def .
  from trade_on_book_passive[OF mem]
  have rp: "trade_on_book reply s hi bb aa md = rest_passive reply s bb aa md fv thr"
    and nh: "\<not> hi" and sp: "MAX_SPREAD_TO_CROSS < aa - bb"
    unfolding fv_def thr_def by blast+
  have tr: "try_trade now reply s hi = rest_passive reply s bb aa md fv thr"
    using rp unfolding tt md_def .
  have mem2: "LimitOrder sd tk q px False \<in> set (snd (rest_passive reply s bb aa md fv thr))"
    using mem rp by simp
  note lim = rest_passive_limit[OF mem2]
  have thr_pos: "0.2 \<le> thr" unfolding thr_def by (rule edge_threshold_ge)
  have fvb: "1 \<le> fv \<and> fv \<le> 99" unfolding fv_def by (rule fair_bounds)
  have bbr: "0 \<le> bb \<and> bb \<le> 100" using book_clamped_best(1)[OF assms(1) bb] .
  have aar: "0 \<le> aa \<and> aa \<le> 100" using book_clamped_best(2)[OF assms(1) aa] .
  have sp2: "2 < aa - bb" using sp by (simp add: MAX_SPREAD_TO_CROSS_def)
  have q1: "1 \<le> q" using lim by simp
  have buy: "sd = BUY \<longrightarrow>
           bb - fv < fv - aa \<and> thr < fv - aa \<and> pos s < MAX_POS
         \<and> q = min (size_for_edge s (fv - aa) md) (MAX_POS - pos s)
         \<and> px = bb + 0.1
         \<and> snd (try_trade now reply s hi) =
             (case work_bid s of Some b \<Rightarrow> [CancelOrder TEAM_A b] | None \<Rightarrow> []) @
             (case work_ask s of Some a \<Rightarrow> [CancelOrder TEAM_A a] | None \<Rightarrow> []) @
             [LimitOrder BUY TEAM_A q px False]
         \<and> work_ask (fst (try_trade now reply s hi)) = None
         \<and> work_bid (fst (try_trade now reply s hi)) =
             (if valid_oid reply then reply else work_bid s)"
  proof
    assume b: "sd = BUY"
    with lim have c1: "bb - fv < fv - aa" and c2: "thr < fv - aa" and c3: "pos s < MAX_POS"
      and c4: "q = min (size_for_edge s (fv - aa) md) (MAX_POS - pos s)"
      and c5: "px = clamp_price (bb + PASSIVE_IMPROVE)"
      by simp_all
    have c6: "1 \<le> min (size_for_edge s (fv - aa) md) (MAX_POS - pos s)" using q1 c4 by simp
    have "0 \<le> bb + 1 / 10" using bbr by linarith
    moreover have "bb + 1 / 10 \<le> 100" using sp2 c2 thr_pos fvb by linarith
    ultimately have "clamp_price (bb + 1 / 10) = bb + 1 / 10" by (rule clamp_price_id)
    then have px: "px = bb + 0.1" using c5 by (simp add: PASSIVE_IMPROVE_def)
    show "bb - fv < fv - aa \<and> thr < fv - aa \<and> pos s < MAX_POS
         \<and> q = min (size_for_edge s (fv - aa) md) (MAX_POS - pos s)
         \<and> px = bb + 0.1
         \<and> snd (try_trade now reply s hi) =
             (case work_bid s of Some b \<Rightarrow> [CancelOrder TEAM_A b] | None \<Rightarrow> []) @
             (case work_ask s of Some a \<Rightarrow> [CancelOrder TEAM_A a] | None \<Rightarrow> []) @
             [LimitOrder BUY TEAM_A q px False]
         \<and> work_ask (fst (try_trade now reply s hi)) = None
         \<and> work_bid (fst (try_trade now reply s hi)) =
             (if valid_oid reply then reply else work_bid s)"
      using c1 c2 c3 c4 px rest_passive_buy[OF c1 c2 c3 c6, of reply] c5
      unfolding tr by simp
  qed
  have sell: "sd = SELL \<longrightarrow>
           fv - aa < bb - fv \<and> thr < bb - fv \<and> - MAX_POS < pos s
         \<and> q = min (size_for_edge s (bb - fv) md) (pos s + MAX_POS)
         \<and> px = aa - 0.1
         \<and> snd (try_trade now reply s hi) =
             (case work_ask s of Some a \<Rightarrow> [CancelOrder TEAM_A a] | None \<Rightarrow> []) @
             (case work_bid s of Some b \<Rightarrow> [CancelOrder TEAM_A b] | None \<Rightarrow> []) @
             [LimitOrder SELL TEAM_A q px False]
         \<and> work_bid (fst (try_trade now reply s hi)) = None
         \<and> work_ask (fst (try_trade now reply s hi)) =
             (if valid_oid reply then reply else work_ask s)"
  proof
    assume b: "sd = SELL"
    with lim have c1: "\<not> (fv - aa > bb - fv \<and> fv - aa > thr \<and> pos s < MAX_POS)"
      and c2: "thr < bb - fv" and c3: "- MAX_POS < pos s"
      and c4: "q = min (size_for_edge s (bb - fv) md) (pos s + MAX_POS)"
      and c5: "px = clamp_price (aa - PASSIVE_IMPROVE)"
      by simp_all
    have c6: "1 \<le> min (size_for_edge s (bb - fv) md) (pos s + MAX_POS)" using q1 c4 by simp
    have lg: "fv - aa < bb - fv" using sp2 c2 thr_pos by linarith
    have "0 \<le> aa - 1 / 10" using sp2 c2 thr_pos fvb by linarith
    moreover have "aa - 1 / 10 \<le> 100" using aar by linarith
    ultimately have "clamp_price (aa - 1 / 10) = aa - 1 / 10" by (rule clamp_price_id)
    then have px: "px = aa - 0.1" using c5 by (simp add: PASSIVE_IMPROVE_def)
    show "fv - aa < bb - fv \<and> thr < bb - fv \<and> - MAX_POS < pos s
         \<and> q = min (size_for_edge s (bb - fv) md) (pos s + MAX_POS)
         \<and> px = aa - 0.1
         \<and> snd (try_trade now reply s hi) =
             (case work_ask s of Some a \<Rightarrow> [CancelOrder TEAM_A a] | None \<Rightarrow> []) @
             (case work_bid s of Some b \<Rightarrow> [CancelOrder TEAM_A b] | None \<Rightarrow> []) @
             [LimitOrder SELL TEAM_A q px False]
         \<and> work_bid (fst (try_trade now reply s hi)) = None
         \<and> work_ask (fst (try_trade now reply s hi)) =
             (if valid_oid reply then reply else work_ask s)"
      using lg c2 c3 c4 px rest_passive_sell[OF c1 c2 c3 c6, of reply] c5
      unfolding tr by simp
  qed
  have mx: "thr < max (fv - aa) (bb - fv)"
    using buy sell by (cases sd) auto
  show ?thesis
    using bb aa nh sp mx q1 buy sell unfolding fv_def thr_def md_def by blast
qed


text \<open>The handlers keep the book prices in [0, 100].\<close>

lemma clamp_price_range: "0 \<le> clamp_price p \<and> clamp_price p \<le> 100"
  by (simp add: clamp_price_def)

lemma keys_clamped_Nil: "keys_clamped []"
  by (simp add: keys_clamped_def)

lemma keys_clamped_update: "keys_clamped al \<Longrightarrow> keys_clamped (AList.update (clamp_price p) v al)"
  using clamp_price_range[of p] by (simp add: keys_clamped_iff dom_update)

lemma keys_clamped_delete: "keys_clamped al \<Longrightarrow> keys_clamped (AList.delete k al)"
  unfolding keys_clamped_iff using dom_delete_subset[of k al] by blast

lemma try_trade_book:
  "bids (fst (try_trade now reply s hi)) = bids s"
  "asks (fst (try_trade now reply s hi)) = asks s"
  using arg_cong[OF try_trade_frame[of now reply s hi], of bids]
    arg_cong[OF try_trade_frame[of now reply s hi], of asks]
  by (simp_all only: no_handles_fields)

lemma book_clamped_reset: "book_clamped (reset_state now)"
  by (simp add: book_clamped_def reset_fields keys_clamped_Nil)

lemma book_clamped_try_trade:
  "book_clamped s \<Longrightarrow> book_clamped (fst (try_trade now reply s hi))"
  by (simp add: book_clamped_def try_trade_book)

lemma book_clamped_update:
  assumes "book_clamped s"
  shows "book_clamped (fst (on_orderbook_update now reply s tk sd q p))"
  using assms unfolding on_orderbook_update_def Let_def
  by (cases tk)
     (simp add: book_clamped_def try_trade_book keys_clamped_update keys_clamped_delete)

lemma load_levels_aux:
  "keys_clamped acc \<Longrightarrow>
   keys_clamped (fold (\<lambda>(p, q) book. if q \<ge> MIN_QTY_LVL
        then AList.update (clamp_price p) q book else book) lv acc)"
proof (induction lv arbitrary: acc)
  case Nil
  then show ?case by simp
next
  case (Cons x lv)
  obtain p q where x: "x = (p, q)" by (cases x)
  have "keys_clamped (if q \<ge> MIN_QTY_LVL then AList.update (clamp_price p) q acc else acc)"
    using Cons.prems by (simp add: keys_clamped_update)
  from Cons.IH[OF this] show ?case by (simp add: x)
qed

lemma load_levels_keys: "keys_clamped (load_levels lv)"
  unfolding load_levels_def by (rule load_levels_aux) (rule keys_clamped_Nil)

lemma book_clamped_snapshot:
  "book_clamped (fst (on_orderbook_snapshot now reply s TEAM_A bs as))"
  unfolding on_orderbook_snapshot_def Let_def
  by (simp add: book_clamped_def try_trade_book load_levels_keys)

lemma book_clamped_account:
  "book_clamped s \<Longrightarrow> book_clamped (fst (on_account_update s tk sd price q cap))"
  unfolding on_account_update_def Let_def
  by (cases "work_bid s"; cases "work_ask s") (simp_all add: book_clamped_def)

lemma book_clamped_trade:
  "book_clamped s \<Longrightarrow> book_clamped (fst (on_trade_update s tk sd q price))"
  by (simp add: on_trade_update_def)

lemma game_state_book:
  "bids (update_scores (infer_time s ts) hs as) = bids s"
  "asks (update_scores (infer_time s ts) hs as) = asks s"
  by (simp_all add: update_scores_def infer_time_def Let_def split: option.splits)

lemma book_clamped_game_event:
  assumes "book_clamped s"
  shows "book_clamped (fst (on_game_event_update now reply s ev))"
proof (cases "event_type ev = ''END_GAME''")
  case True
  then show ?thesis by (simp add: end_game_result book_clamped_reset)
next
  case False
  then show ?thesis
    using assms unfolding on_game_event_update_def Let_def
    by (simp add: book_clamped_def try_trade_book flatten_all_state game_state_book)
qed


lemma resting_state_fields:
  "bids resting_state = [(30, 5)]" "asks resting_state = [(40, 5)]" "t resting_state = 0"
  "lead resting_state = 0" "momentum resting_state = - 1"
  "pos resting_state = 0" "capital resting_state = 100000"
  "start resting_state = 0" "work_bid resting_state = Some 3"
  "work_ask resting_state = Some 7"
  by (simp_all add: resting_state_def late_state_def reset_state_def)

lemma resting_state_values:
  "fair resting_state = 50" "edge_threshold resting_state = 81 / 200"
  "best_bid resting_state = Some 30" "best_ask resting_state = Some 40"
  "size_for_edge resting_state 10 35 = 80"
  by (simp_all add: fair_def win_prob_def sigmoid_def logit_def Let_def HOME_ADV_def
      edge_threshold_eq BASE_EDGE_def best_bid_def best_ask_def level_ok_def MIN_QTY_LVL_def
      size_for_edge_eq urgency_def edge_factor_def RISK_PCT_def MAX_POS_def
      resting_state_fields)

lemma resting_state_passive:
  "try_trade 10 (Some 11) resting_state False
     = (resting_state\<lparr>work_ask := None, work_bid := Some 11\<rparr>,
        [CancelOrder TEAM_A 3, CancelOrder TEAM_A 7, LimitOrder BUY TEAM_A 80 (301 / 10) False])"
  by (simp add: try_trade_def mid_def trade_on_book_def rest_passive_def Let_def
      resting_state_values resting_state_fields valid_oid_def clamp_price_def
      INIT_COOLDOWN_def MAX_SPREAD_TO_CROSS_def MAX_POS_def PASSIVE_IMPROVE_def)

lemma resting_state_clamped: "book_clamped resting_state"
  by (simp add: book_clamped_def keys_clamped_def resting_state_fields)

theorem passive_rest_witness:
  "book_clamped resting_state
   \<and> LimitOrder BUY TEAM_A 80 (301 / 10) False
       \<in> set (snd (try_trade 10 (Some 11) resting_state False))
   \<and> best_bid resting_state = Some 30 \<and> best_ask resting_state = Some 40
   \<and> snd (try_trade 10 (Some 11) resting_state False)
       = [CancelOrder TEAM_A 3, CancelOrder TEAM_A 7, LimitOrder BUY TEAM_A 80 (301 / 10) False]
   \<and> work_ask (fst (try_trade 10 (Some 11) resting_state False)) = None
   \<and> work_bid (fst (try_trade 10 (Some 11) resting_state False)) = Some 11"
  using passive_rest[of resting_state BUY TEAM_A 80 "301 / 10" 10 "Some 11" False]
  by (simp add: resting_state_passive resting_state_clamped resting_state_values)

subsection \<open>Close-out\<close>

lemma flatten_all_no_limit: "LimitOrder sd tk q px ioc \<notin> set (snd (flatten_all s))"
  by (simp add: flatten_all_cmds cancel_working_no_limit)

lemma flatten_all_market:
  "snd (flatten_all s) =
     (case work_bid s of Some b \<Rightarrow> [CancelOrder TEAM_A b] | None \<Rightarrow> []) @
     (case work_ask s of Some a \<Rightarrow> [CancelOrder TEAM_A a] | None \<Rightarrow> []) @
     (if 1 \<le> \<bar>pos s\<bar>
      then [MarketOrder (if 0 < pos s then SELL else BUY) TEAM_A (of_int \<lfloor>\<bar>pos s\<bar>\<rfloor>)]
      else [])"
  by (simp add: flatten_all_cmds cancel_working_cmds abs_if)

lemma game_state_frame:
  "pos (update_scores (infer_time s ts) hs as) = pos s"
  "capital (update_scores (infer_time s ts) hs as) = capital s"
  "work_bid (update_scores (infer_time s ts) hs as) = work_bid s"
  "work_ask (update_scores (infer_time s ts) hs as) = work_ask s"
  "start (update_scores (infer_time s ts) hs as) = start s"
  "t (update_scores (infer_time s ts) hs as) = t (infer_time s ts)"
  by (simp_all add: update_scores_def infer_time_def Let_def split: option.splits)

lemma close_out_result:
  assumes "event_type ev \<noteq> ''END_GAME''"
    and "t (infer_time s (time_seconds ev)) \<le> CLOSE_OUT_BUFFER"
  shows "on_game_event_update now reply s ev =
     flatten_all (update_scores (infer_time s (time_seconds ev)) (home_score ev) (away_score ev))"
  using assms unfolding on_game_event_update_def Let_def
  by (simp add: game_state_frame)

text \<open>
  C6 (as amended). For every game event other than END_GAME that leaves the stored
  remaining time, after the time inference of that same event, at or below the close-out
  buffer of 2, the handler issues exactly the flatten sequence: the cancels of the working
  orders that exist, then, if the magnitude of the position is at least 1, one market
  order against the position for the whole-unit floor of that magnitude. It places no
  limit order whatever the edge, and the state is not reset: scores, time and momentum are
  updated, both handles are cleared, and book, capital, position and cooldown start are
  as before.
\<close>

theorem close_out_flatten:
  "event_type ev \<noteq> ''END_GAME'' \<and> t (infer_time s (time_seconds ev)) \<le> CLOSE_OUT_BUFFER \<longrightarrow>
     snd (on_game_event_update now reply s ev) =
       (case work_bid s of Some b \<Rightarrow> [CancelOrder TEAM_A b] | None \<Rightarrow> []) @
       (case work_ask s of Some a \<Rightarrow> [CancelOrder TEAM_A a] | None \<Rightarrow> []) @
       (if 1 \<le> \<bar>pos s\<bar>
        then [MarketOrder (if 0 < pos s then SELL else BUY) TEAM_A (of_int \<lfloor>\<bar>pos s\<bar>\<rfloor>)]
        else [])
   \<and> (\<forall>sd tk q px ioc. LimitOrder sd tk q px ioc \<notin> set (snd (on_game_event_update now reply s ev)))
   \<and> fst (on_game_event_update now reply s ev) =
       (update_scores (infer_time s (time_seconds ev)) (home_score ev) (away_score ev))
         \<lparr>work_bid := None, work_ask := None\<rparr>
   \<and> bids (fst (on_game_event_update now reply s ev)) = bids s
   \<and> asks (fst (on_game_event_update now reply s ev)) = asks s
   \<and> capital (fst (on_game_event_update now reply s ev)) = capital s
   \<and> pos (fst (on_game_event_update now reply s ev)) = pos s
   \<and> start (fst (on_game_event_update now reply s ev)) = start s
   \<and> t (fst (on_game_event_update now reply s ev)) \<le> CLOSE_OUT_BUFFER"
proof (intro impI)
  assume a: "event_type ev \<noteq> ''END_GAME'' \<and> t (infer_time s (time_seconds ev)) \<le> CLOSE_OUT_BUFFER"
  then have r: "on_game_event_update now reply s ev =
     flatten_all (update_scores (infer_time s (time_seconds ev)) (home_score ev) (away_score ev))"
    by (simp add: close_out_result)
  show "snd (on_game_event_update now reply s ev) =
       (case work_bid s of Some b \<Rightarrow> [CancelOrder TEAM_A b] | None \<Rightarrow> []) @
       (case work_ask s of Some a \<Rightarrow> [CancelOrder TEAM_A a] | None \<Rightarrow> []) @
       (if 1 \<le> \<bar>pos s\<bar>
        then [MarketOrder (if 0 < pos s then SELL else BUY) TEAM_A (of_int \<lfloor>\<bar>pos s\<bar>\<rfloor>)]
        else [])
   \<and> (\<forall>sd tk q px ioc. LimitOrder sd tk q px ioc \<notin> set (snd (on_game_event_update now reply s ev)))
   \<and> fst (on_game_event_update now reply s ev) =
       (update_scores (infer_time s (time_seconds ev)) (home_score ev) (away_score ev))
         \<lparr>work_bid := None, work_ask := None\<rparr>
   \<and> bids (fst (on_game_event_update now reply s ev)) = bids s
   \<and> asks (fst (on_game_event_update now reply s ev)) = asks s
   \<and> capital (fst (on_game_event_update now reply s ev)) = capital s
   \<and> pos (fst (on_game_event_update now reply s ev)) = pos s
   \<and> start (fst (on_game_event_update now reply s ev)) = start s
   \<and> t (fst (on_game_event_update now reply s ev)) \<le> CLOSE_OUT_BUFFER"
    unfolding r using a
    by (simp add: flatten_all_market flatten_all_no_limit flatten_all_state game_state_frame
        game_state_book)
qed

lemma closing_state_fields:
  "pos closing_state = - 25 / 2" "work_bid closing_state = None"
  "work_ask closing_state = Some 7" "t closing_state = 3 / 2"
  by (simp_all add: closing_state_def reset_state_def)

theorem close_out_flatten_witness:
  "event_type (sample_event ''SCORE'' (Some (3 / 2))) \<noteq> ''END_GAME''
   \<and> t (infer_time closing_state (time_seconds (sample_event ''SCORE'' (Some (3 / 2)))))
        \<le> CLOSE_OUT_BUFFER
   \<and> snd (on_game_event_update 10 None closing_state (sample_event ''SCORE'' (Some (3 / 2))))
       = [CancelOrder TEAM_A 7, MarketOrder BUY TEAM_A 12]
   \<and> pos (fst (on_game_event_update 10 None closing_state (sample_event ''SCORE'' (Some (3 / 2)))))
       = - 25 / 2"
  using close_out_flatten[of "sample_event ''SCORE'' (Some (3 / 2))" closing_state 10 None]
  by (simp add: sample_event_fields infer_time_cases closing_state_fields game_state_frame
      CLOSE_OUT_BUFFER_def GAME_LEN1_def)

lemma late_state_add_ask:
  "on_orderbook_update 10 None (late_state [(39, 5)] []) TEAM_A SELL 5 41
     = try_trade 10 None (late_state [(39, 5)] [(41, 5)]) False"
  by (simp add: on_orderbook_update_def Let_def clamp_price_def late_state_def reset_state_def)

lemma closing_state_resumes:
  "snd (on_game_event_update 10 None closing_state (sample_event ''SCORE'' (Some 100))) = []"
proof -
  have "bids (update_scores (infer_time closing_state (Some 100)) 0 0) = []"
    by (simp add: game_state_book closing_state_def reset_state_def)
  then have "best_bid (update_scores (infer_time closing_state (Some 100)) 0 0) = None"
    by (simp add: best_bid_def)
  then have "try_trade 10 None (update_scores (infer_time closing_state (Some 100)) 0 0) False
      = (update_scores (infer_time closing_state (Some 100)) 0 0, [])"
    by (simp add: try_trade_def)
  then show ?thesis
    unfolding on_game_event_update_def Let_def
    by (simp add: sample_event_fields game_state_frame infer_time_cases is_high_impact_def
        CLOSE_OUT_BUFFER_def GAME_LEN1_def)
qed

text \<open>
  The claim as stated fails. With 0 on the clock, a book update (an ask of 5 at 41 against
  a bid at 39, fair value 50) makes the engine cross the spread with a buy of 70: the
  close-out gate is in the game-event handler only. And with 1.5 on the clock and a short
  position of 12.5, a game event that reports 100 seconds puts the clock back above the
  buffer, and the handler issues no command at all.
\<close>

theorem close_out_counterexample:
  "t (late_state [(39, 5)] []) \<le> CLOSE_OUT_BUFFER
   \<and> on_orderbook_update 10 None (late_state [(39, 5)] []) TEAM_A SELL 5 41
       = (late_state [(39, 5)] [(41, 5)], [LimitOrder BUY TEAM_A 70 41 True])
   \<and> t closing_state \<le> CLOSE_OUT_BUFFER \<and> 1 \<le> \<bar>pos closing_state\<bar>
   \<and> snd (on_game_event_update 10 None closing_state (sample_event ''SCORE'' (Some 100))) = []"
  by (simp add: late_state_add_ask late_state_cross late_state_fields CLOSE_OUT_BUFFER_def
      closing_state_resumes closing_state_fields)

subsection \<open>What each handler does before it returns\<close>

lemma orderbook_update_dispatch:
  "\<exists>s1. on_orderbook_update now reply s TEAM_A sd q p = try_trade now reply s1 False
     \<and> s1 = s\<lparr>bids := bids s1, asks := asks s1\<rparr>
     \<and> (sd = BUY \<longrightarrow> asks s1 = asks s
          \<and> map_of (bids s1) = (map_of (bids s))(clamp_price p := if q \<le> 0 then None else Some q))
     \<and> (sd = SELL \<longrightarrow> bids s1 = bids s
          \<and> map_of (asks s1) = (map_of (asks s))(clamp_price p := if q \<le> 0 then None else Some q))"
proof (cases sd)
  case BUY
  show ?thesis
  proof (cases "q \<le> 0")
    case True
    with BUY show ?thesis
      by (intro exI[of _ "s\<lparr>bids := AList.delete (clamp_price p) (bids s)\<rparr>"])
         (simp add: on_orderbook_update_def Let_def delete_conv')
  next
    case False
    with BUY show ?thesis
      by (intro exI[of _ "s\<lparr>bids := AList.update (clamp_price p) q (bids s)\<rparr>"])
         (simp add: on_orderbook_update_def Let_def update_conv')
  qed
next
  case SELL
  show ?thesis
  proof (cases "q \<le> 0")
    case True
    with SELL show ?thesis
      by (intro exI[of _ "s\<lparr>asks := AList.delete (clamp_price p) (asks s)\<rparr>"])
         (simp add: on_orderbook_update_def Let_def delete_conv')
  next
    case False
    with SELL show ?thesis
      by (intro exI[of _ "s\<lparr>asks := AList.update (clamp_price p) q (asks s)\<rparr>"])
         (simp add: on_orderbook_update_def Let_def update_conv')
  qed
qed

lemma snapshot_dispatch:
  "on_orderbook_snapshot now reply s TEAM_A bs as
     = try_trade now reply (s\<lparr>bids := load_levels bs, asks := load_levels as\<rparr>) False"
  by (simp add: on_orderbook_snapshot_def Let_def)

lemma game_event_dispatch:
  assumes "event_type ev \<noteq> ''END_GAME''"
    and "CLOSE_OUT_BUFFER < t (infer_time s (time_seconds ev))"
  shows "on_game_event_update now reply s ev =
     try_trade now reply
       (update_scores (infer_time s (time_seconds ev)) (home_score ev) (away_score ev))
       (is_high_impact
          (update_scores (infer_time s (time_seconds ev)) (home_score ev) (away_score ev))
          (event_type ev) (shot_type ev))"
  using assms unfolding on_game_event_update_def Let_def
  by (simp add: game_state_frame)

lemma account_update_cmds:
  "\<forall>c \<in> set (snd (on_account_update s tk sd price q cap)). \<exists>i. c = CancelOrder TEAM_A i"
  unfolding on_account_update_def Let_def
  by (cases "work_bid s"; cases "work_ask s") simp_all

text \<open>
  C1 (as amended). The book-delta handler stores or deletes the level at the clamped
  price on the given side, changes nothing else, and then re-evaluates the decision
  engine (not high-impact); the book-snapshot handler replaces both sides and then
  re-evaluates it; the game-event handler updates time, scores and momentum and then
  re-evaluates it with the high-impact flag, unless the event is END_GAME or the remaining
  time is within the close-out buffer. The trade-print handler changes nothing and issues
  nothing, and the account-update handler issues cancel commands at most: neither
  re-evaluates the decision engine.
\<close>

theorem event_dispatch:
  "(\<exists>s1. on_orderbook_update now reply s TEAM_A sd q p = try_trade now reply s1 False
     \<and> s1 = s\<lparr>bids := bids s1, asks := asks s1\<rparr>
     \<and> (sd = BUY \<longrightarrow> asks s1 = asks s
          \<and> map_of (bids s1) = (map_of (bids s))(clamp_price p := if q \<le> 0 then None else Some q))
     \<and> (sd = SELL \<longrightarrow> bids s1 = bids s
          \<and> map_of (asks s1) = (map_of (asks s))(clamp_price p := if q \<le> 0 then None else Some q)))
   \<and> on_orderbook_snapshot now reply s TEAM_A bs as
       = try_trade now reply (s\<lparr>bids := load_levels bs, asks := load_levels as\<rparr>) False
   \<and> (event_type ev \<noteq> ''END_GAME'' \<and> CLOSE_OUT_BUFFER < t (infer_time s (time_seconds ev)) \<longrightarrow>
        on_game_event_update now reply s ev =
          try_trade now reply
            (update_scores (infer_time s (time_seconds ev)) (home_score ev) (away_score ev))
            (is_high_impact
               (update_scores (infer_time s (time_seconds ev)) (home_score ev) (away_score ev))
               (event_type ev) (shot_type ev)))
   \<and> on_trade_update s tk sd q p = (s, [])
   \<and> (\<forall>c \<in> set (snd (on_account_update s tk sd price q cap)). \<exists>i. c = CancelOrder TEAM_A i)"
  using orderbook_update_dispatch[of now reply s sd q p] snapshot_dispatch[of now reply s bs as]
    game_event_dispatch[of ev s now reply] account_update_cmds[of s tk sd price q cap]
  by (simp add: on_trade_update_def)


lemma filled_state_fields:
  "bids filled_state = [(39, 5)]" "asks filled_state = [(41, 5)]" "t filled_state = 0"
  "lead filled_state = 0" "momentum filled_state = - 1"
  "pos filled_state = 5" "capital filled_state = 99795"
  "start filled_state = 0" "work_bid filled_state = None"
  "work_ask filled_state = None"
  by (simp_all add: filled_state_def late_state_def reset_state_def)

lemma filled_state_values:
  "fair filled_state = 50" "edge_threshold filled_state = 81 / 200"
  "best_bid filled_state = Some 39" "best_ask filled_state = Some 41"
  "size_for_edge filled_state 9 40 = 69"
  by (simp_all add: fair_def win_prob_def sigmoid_def logit_def Let_def HOME_ADV_def
      edge_threshold_eq BASE_EDGE_def best_bid_def best_ask_def level_ok_def MIN_QTY_LVL_def
      size_for_edge_eq urgency_def edge_factor_def RISK_PCT_def MAX_POS_def
      filled_state_fields)

lemma filled_state_no_handles:
  "filled_state\<lparr>work_bid := None, work_ask := None\<rparr> = filled_state"
  by (simp add: filled_state_def late_state_def reset_state_def)

lemma filled_state_cross:
  "try_trade 10 None filled_state False = (filled_state, [LimitOrder BUY TEAM_A 69 41 True])"
  by (simp add: try_trade_def mid_def trade_on_book_def Let_def
      filled_state_values filled_state_fields cancel_working_def filled_state_no_handles
      INIT_COOLDOWN_def MAX_SPREAD_TO_CROSS_def MAX_POS_def)

lemma late_state_fill:
  "on_account_update (late_state [(39, 5)] [(41, 5)]) TEAM_A BUY 41 5 99795 = (filled_state, [])"
  by (simp add: on_account_update_def Let_def filled_state_def late_state_def reset_state_def)

theorem event_dispatch_witness:
  "event_type (sample_event ''SCORE'' (Some 100)) \<noteq> ''END_GAME''
   \<and> CLOSE_OUT_BUFFER < t (infer_time closing_state (time_seconds (sample_event ''SCORE'' (Some 100))))
   \<and> on_game_event_update 10 None closing_state (sample_event ''SCORE'' (Some 100)) =
       try_trade 10 None
         (update_scores (infer_time closing_state (Some 100)) 0 0)
         (is_high_impact (update_scores (infer_time closing_state (Some 100)) 0 0) ''SCORE'' None)
   \<and> on_orderbook_snapshot 10 None closing_state TEAM_A [(39, 5)] [(41, 5)] =
       try_trade 10 None (closing_state\<lparr>bids := [(39, 5)], asks := [(41, 5)]\<rparr>) False
   \<and> CancelOrder TEAM_A 7 \<in> set (snd (on_account_update closing_state TEAM_A SELL 41 5 100205))
   \<and> on_trade_update closing_state TEAM_A BUY 5 41 = (closing_state, [])"
  using event_dispatch[of 10 None closing_state BUY 5 41 "[(39, 5)]" "[(41, 5)]"
      "sample_event ''SCORE'' (Some 100)" TEAM_A 41 100205]
  by (simp add: sample_event_fields infer_time_cases closing_state_fields
      CLOSE_OUT_BUFFER_def GAME_LEN1_def load_levels_def MIN_QTY_LVL_def clamp_price_def
      on_account_update_def Let_def)

text \<open>
  The claim as stated fails. In a state where an evaluation of the decision engine would
  cross the spread with a buy of 70 at 41, a trade print leaves the state as it is and
  issues no command; and after a buy fill of 5, where an evaluation would buy 69 at 41,
  the account update has issued no command.
\<close>

theorem event_dispatch_counterexample:
  "on_trade_update (late_state [(39, 5)] [(41, 5)]) TEAM_A BUY 5 41
     = (late_state [(39, 5)] [(41, 5)], [])
   \<and> try_trade 10 None (late_state [(39, 5)] [(41, 5)]) False
     = (late_state [(39, 5)] [(41, 5)], [LimitOrder BUY TEAM_A 70 41 True])
   \<and> on_account_update (late_state [(39, 5)] [(41, 5)]) TEAM_A BUY 41 5 99795
     = (filled_state, [])
   \<and> try_trade 10 None filled_state False = (filled_state, [LimitOrder BUY TEAM_A 69 41 True])"
  by (simp add: on_trade_update_def late_state_cross late_state_fill filled_state_cross)

end
